theory Spec2Isabelle
  imports Main "HOL-Library.Word" "HOL-Library.Multiset" "HOL-Library.Char_ord"
    "HOL-Library.List_Lexorder"
begin

section \<open>JUnit result trees (package junit, as used by the analyzer)\<close>

text \<open>
  The analyzer reads and writes \<open>junit.TestSuite\<close> trees. Only the fields the analyzer
  touches are kept: a test case has a name, captured output and an optional failure
  record (a nil \<open>*FailureOutput\<close> is \<open>None\<close>); a suite has a name, the two counters
  (Go \<open>uint\<close>, 64 bit), its direct test cases and its child suites. The wall-clock
  \<open>Duration\<close> of a case is not modelled.
\<close>

record FailureOutput =
  Message :: string

record TestCase =
  tc_Name :: string
  tc_SystemOut :: string
  tc_FailureOutput :: "FailureOutput option"

datatype TestSuite = TestSuite
  (ts_Name: string)
  (ts_NumTests: "64 word")
  (ts_NumFailed: "64 word")
  (ts_TestCases: "TestCase list")
  (ts_Children: "TestSuite list")

section \<open>Suite matcher: \<open>getTestStatus\<close>\<close>

record testIdentifier =
  testSuites :: "string list"
  testName :: string

datatype testStatus = testSkipped | testPassed | testFailed

text \<open>The loop over \<open>testSuite.TestCases\<close> in the one-element branch: the first case
  whose name is exactly the test name decides.\<close>

fun scanTestCases :: "string \<Rightarrow> TestCase list \<Rightarrow> testStatus" where
  "scanTestCases name [] = testSkipped"
| "scanTestCases name (testCase # rest) =
     (if tc_Name testCase = name
      then (if tc_FailureOutput testCase = None then testPassed else testFailed)
      else scanTestCases name rest)"

text \<open>\<open>getTestStatus\<close> and its loop over \<open>testSuite.Children\<close> (\<open>searchChildren\<close>, where
  the identifier passed is \<open>next\<close>, the identifier with the first suite name dropped).\<close>

fun getTestStatus :: "testIdentifier \<Rightarrow> TestSuite \<Rightarrow> testStatus"
and searchChildren :: "testIdentifier \<Rightarrow> TestSuite list \<Rightarrow> testStatus" where
  "getTestStatus tid (TestSuite name numTests numFailed testCases children) =
     (case testSuites tid of
        [] \<Rightarrow> testSkipped
      | first # remaining \<Rightarrow>
          if first \<noteq> name then testSkipped
          else if remaining = [] then scanTestCases (testName tid) testCases
          else searchChildren (tid\<lparr>testSuites := remaining\<rparr>) children)"
| "searchChildren next [] = testSkipped"
| "searchChildren next (childSuite # rest) =
     (case testSuites next of
        [] \<Rightarrow> searchChildren next rest
      | first # remaining \<Rightarrow>
          if first = ts_Name childSuite
          then (let status = getTestStatus next childSuite
                in if status = testPassed \<or> status = testFailed then status
                   else searchChildren next rest)
          else searchChildren next rest)"

section \<open>Decimal formatting (\<open>%d\<close> of \<open>fmt.Sprintf\<close>)\<close>

definition digitChar :: "nat \<Rightarrow> char" where
  "digitChar d = ''0123456789'' ! d"

text \<open>The digits of a non-negative number, and \<open>%d\<close> of a signed one. Numbers are
  \<open>int\<close> throughout: run identifiers have 19 digits.\<close>

function formatUint :: "int \<Rightarrow> string" where
  "formatUint n =
     (if n < 10 then [digitChar (nat n)]
      else formatUint (n div 10) @ [digitChar (nat (n mod 10))])"
  by pat_completeness auto
termination
  by (relation "measure nat") auto

declare formatUint.simps [simp del]

definition formatInt :: "int \<Rightarrow> string" where
  "formatInt i = (if i < 0 then CHR ''-'' # formatUint (- i) else formatUint i)"

section \<open>Threshold checker: \<open>minimumRequiredPassesTestCaseChecker\<close>\<close>

text \<open>
  A job run is used as a map key and through its three getters only. The evidence types
  \<open>TestCasePass\<close>, \<open>TestCaseFailure\<close> and \<open>TestCaseSkip\<close> of the library have the same
  three fields and are modelled by one record.
\<close>

record JobRunInfo =
  JobRunID :: string
  HumanURL :: string
  GCSArtifactURL :: string

record TestCaseRun =
  run_JobRunID :: string
  run_HumanURL :: string
  run_GCSArtifactURL :: string

record TestCaseDetails =
  details_Name :: string
  details_TestSuiteName :: string
  details_Summary :: string
  Passes :: "TestCaseRun list"
  Failures :: "TestCaseRun list"
  Skips :: "TestCaseRun list"

record TestSuites =
  Suites :: "TestSuite list"

record minimumRequiredPassesTestCaseChecker =
  checker_id :: testIdentifier
  testNameSuffix :: string
  requiredNumberOfPasses :: int

definition testCaseRun :: "JobRunInfo \<Rightarrow> TestCaseRun" where
  "testCaseRun jobRun =
     \<lparr>run_JobRunID = JobRunID jobRun, run_HumanURL = HumanURL jobRun,
      run_GCSArtifactURL = GCSArtifactURL jobRun\<rparr>"

fun addTestResultToDetails :: "TestCaseDetails \<Rightarrow> JobRunInfo \<Rightarrow> testStatus \<Rightarrow> TestCaseDetails" where
  "addTestResultToDetails currDetails jobRun testPassed =
     currDetails\<lparr>Passes := Passes currDetails @ [testCaseRun jobRun]\<rparr>"
| "addTestResultToDetails currDetails jobRun testFailed =
     currDetails\<lparr>Failures := Failures currDetails @ [testCaseRun jobRun]\<rparr>"
| "addTestResultToDetails currDetails jobRun testSkipped =
     currDetails\<lparr>Skips := Skips currDetails @ [testCaseRun jobRun]\<rparr>"

text \<open>\<open>addToTestSuiteFromSuiteNames\<close> hangs a chain of fresh suites, one per suite name,
  under the top suite: each new suite is appended to the children of the previous one.
  The Go function returns a pointer to the last suite of the chain; in the tree that
  suite is reached from the top by taking the last child once per suite name, which is
  what \<open>atBottomSuite\<close> does to apply an update through that pointer.\<close>

fun addToTestSuiteFromSuiteNames :: "TestSuite \<Rightarrow> string list \<Rightarrow> TestSuite" where
  "addToTestSuiteFromSuiteNames previousSuite [] = previousSuite"
| "addToTestSuiteFromSuiteNames (TestSuite name numTests numFailed testCases children)
       (suiteName # rest) =
     TestSuite name numTests numFailed testCases
       (children @ [addToTestSuiteFromSuiteNames (TestSuite suiteName 0 0 [] []) rest])"

fun atBottomSuite :: "nat \<Rightarrow> (TestSuite \<Rightarrow> TestSuite) \<Rightarrow> TestSuite \<Rightarrow> TestSuite" where
  "atBottomSuite 0 f suite = f suite"
| "atBottomSuite (Suc depth) f (TestSuite name numTests numFailed testCases children) =
     (if children = [] then TestSuite name numTests numFailed testCases children
      else TestSuite name numTests numFailed testCases
             (butlast children @ [atBottomSuite depth f (last children)]))"

text \<open>The statement \<open>bottomSuite.TestCases = append(bottomSuite.TestCases, testCase)\<close>.\<close>

fun appendTestCase :: "TestCase \<Rightarrow> TestSuite \<Rightarrow> TestSuite" where
  "appendTestCase testCase (TestSuite name numTests numFailed testCases children) =
     TestSuite name numTests numFailed (testCases @ [testCase]) children"

text \<open>\<open>updateTestCountsInSuite\<close>: the first loop counts the suite's own cases, the second
  (\<open>updateChildren\<close>) recomputes each child and adds its counters. Go's \<open>uint\<close> counters
  wrap at \<open>2 ^ 64\<close>.\<close>

fun countTestCases :: "TestCase list \<Rightarrow> 64 word \<Rightarrow> 64 word \<Rightarrow> 64 word \<times> 64 word" where
  "countTestCases [] numTests numFailed = (numTests, numFailed)"
| "countTestCases (test # rest) numTests numFailed =
     countTestCases rest (numTests + 1)
       (if tc_FailureOutput test \<noteq> None then numFailed + 1 else numFailed)"

fun updateTestCountsInSuite :: "TestSuite \<Rightarrow> TestSuite"
and updateChildren :: "TestSuite list \<Rightarrow> 64 word \<Rightarrow> 64 word \<Rightarrow> TestSuite list \<times> 64 word \<times> 64 word" where
  "updateTestCountsInSuite (TestSuite name oldTests oldFailed testCases children) =
     (case countTestCases testCases 0 0 of (numTests, numFailed) \<Rightarrow>
        (case updateChildren children numTests numFailed of (children', numTests', numFailed') \<Rightarrow>
           TestSuite name numTests' numFailed' testCases children'))"
| "updateChildren [] numTests numFailed = ([], numTests, numFailed)"
| "updateChildren (child # rest) numTests numFailed =
     (let child' = updateTestCountsInSuite child in
        (case updateChildren rest (numTests + ts_NumTests child') (numFailed + ts_NumFailed child') of
           (rest', numTests', numFailed') \<Rightarrow> (child' # rest', numTests', numFailed')))"

text \<open>The inner loop of \<open>CheckTestCase\<close> over the top-level suites of one job run. It
  carries \<open>status\<close> and \<open>successCount\<close> and stops at the first suite found passed or
  failed.\<close>

fun checkSuites :: "testIdentifier \<Rightarrow> TestSuite list \<Rightarrow> testStatus \<Rightarrow> int \<Rightarrow> testStatus \<times> int" where
  "checkSuites tid [] status successCount = (status, successCount)"
| "checkSuites tid (testSuite # rest) status successCount =
     (case getTestStatus tid testSuite of
        testPassed \<Rightarrow> (testPassed, successCount + 1)
      | testFailed \<Rightarrow> (testFailed, successCount)
      | testSkipped \<Rightarrow> checkSuites tid rest testSkipped successCount)"

text \<open>The outer loop over the entries of the map \<open>jobRunJunits\<close>. Go visits a map in an
  unspecified order; the list is the entries in the order of the visit.\<close>

fun checkJobRuns ::
  "minimumRequiredPassesTestCaseChecker \<Rightarrow> (JobRunInfo \<times> TestSuites) list \<Rightarrow> int \<Rightarrow> TestCaseDetails
     \<Rightarrow> int \<times> TestCaseDetails" where
  "checkJobRuns r [] successCount currDetails = (successCount, currDetails)"
| "checkJobRuns r ((jobRun, suites) # rest) successCount currDetails =
     (case checkSuites (checker_id r) (Suites suites) testSkipped successCount of
        (status, successCount') \<Rightarrow>
          checkJobRuns r rest successCount' (addTestResultToDetails currDetails jobRun status))"

fun stringsJoin :: "string list \<Rightarrow> string \<Rightarrow> string" where
  "stringsJoin [] sep = []"
| "stringsJoin [a] sep = a"
| "stringsJoin (a # b # rest) sep = a @ sep @ stringsJoin (b # rest) sep"

text \<open>
  \<open>CheckTestCase\<close>. Two things the function uses are not part of the analyzer and are
  parameters here: the constant \<open>TestSuitesSeparator\<close> and \<open>yaml.Marshal\<close> on the details
  (\<open>None\<close> when it returns an error, in which case \<open>CheckTestCase\<close> returns nil).
  The Go code links the test case into the bottom suite by pointer and fills in its output
  and failure afterwards; the tree sees those writes, so the model appends the case with
  its final fields.
\<close>

definition CheckTestCase ::
  "minimumRequiredPassesTestCaseChecker \<Rightarrow> string \<Rightarrow> (TestCaseDetails \<Rightarrow> string option)
     \<Rightarrow> (JobRunInfo \<times> TestSuites) list \<Rightarrow> TestSuite option" where
  "CheckTestCase r TestSuitesSeparator yamlMarshal jobRunJunits =
     (let topSuite = TestSuite ''minimum-required-passes-checker'' 0 0 [] [];
          topSuite = addToTestSuiteFromSuiteNames topSuite (testSuites (checker_id r));
          depth = length (testSuites (checker_id r));
          caseName = ''test '' @ [CHR 0x27] @ testName (checker_id r) @ [CHR 0x27]
                       @ '' has required number of successful passes across payload jobs'';
          caseName = (if length (testNameSuffix r) > 0
                      then caseName @ '' for '' @ testNameSuffix r else caseName);
          currDetails = \<lparr>details_Name = testName (checker_id r),
                         details_TestSuiteName =
                           stringsJoin (testSuites (checker_id r)) TestSuitesSeparator,
                         details_Summary = [], Passes = [], Failures = [], Skips = []\<rparr>
      in case checkJobRuns r jobRunJunits 0 currDetails of
           (successCount, currDetails) \<Rightarrow>
             (let currDetails = currDetails\<lparr>details_Summary :=
                      ''Total job runs: '' @ formatInt (int (length jobRunJunits))
                    @ '', passes: '' @ formatInt (int (length (Passes currDetails)))
                    @ '', failures: '' @ formatInt (int (length (Failures currDetails)))
                    @ '', skips '' @ formatInt (int (length (Skips currDetails)))\<rparr>
              in case yamlMarshal currDetails of
                   None \<Rightarrow> None
                 | Some detailsYaml \<Rightarrow>
                     (let testCase = \<lparr>tc_Name = caseName, tc_SystemOut = detailsYaml,
                            tc_FailureOutput =
                              (if successCount < requiredNumberOfPasses r
                               then Some \<lparr>Message = ''required minimum successful count ''
                                       @ formatInt (requiredNumberOfPasses r) @ '', got ''
                                       @ formatInt successCount\<rparr>
                               else None)\<rparr>;
                          topSuite = atBottomSuite depth (appendTestCase testCase) topSuite
                      in Some (updateTestCountsInSuite topSuite))))"

subsection \<open>Notions used to state the checker's properties\<close>

text \<open>The verdict of one job run as the specification words it: the first top-level
  suite of the run's forest whose verdict is passed or failed decides, and the run is
  skipped when there is none.\<close>

definition forestVerdict :: "testIdentifier \<Rightarrow> TestSuites \<Rightarrow> testStatus" where
  "forestVerdict tid suites =
     (case find (\<lambda>s. s = testPassed \<or> s = testFailed) (map (getTestStatus tid) (Suites suites)) of
        None \<Rightarrow> testSkipped
      | Some s \<Rightarrow> s)"

definition passedRuns :: "testIdentifier \<Rightarrow> (JobRunInfo \<times> TestSuites) list \<Rightarrow> nat" where
  "passedRuns tid jobRunJunits =
     length (filter (\<lambda>entry. forestVerdict tid (snd entry) = testPassed) jobRunJunits)"

text \<open>All test cases of a tree, a suite's own cases before those of its children.\<close>

fun allTestCases :: "TestSuite \<Rightarrow> TestCase list" where
  "allTestCases (TestSuite name numTests numFailed testCases children) =
     testCases @ concat (map allTestCases children)"

text \<open>All suites of a tree, the root first.\<close>

fun allSuites :: "TestSuite \<Rightarrow> TestSuite list" where
  "allSuites (TestSuite name numTests numFailed testCases children) =
     TestSuite name numTests numFailed testCases children # concat (map allSuites children)"

text \<open>The count equations of one suite node: its counters are the numbers of its own cases
  and of its own failed cases, plus the counters stored in its children.\<close>

definition countsMatch :: "TestSuite \<Rightarrow> bool" where
  "countsMatch suite =
     (ts_NumTests suite =
        word_of_nat (length (ts_TestCases suite)) + sum_list (map ts_NumTests (ts_Children suite))
    \<and> ts_NumFailed suite =
        word_of_nat (length (filter (\<lambda>test. tc_FailureOutput test \<noteq> None) (ts_TestCases suite)))
          + sum_list (map ts_NumFailed (ts_Children suite)))"

section \<open>Job run locator with retry: \<open>findJobRunsWithRetry\<close>\<close>

text \<open>
  Errors are values. \<open>context_error\<close> is what \<open>ctx.Err()\<close> returns once the context is
  done; \<open>wrapped\<close> is \<open>fmt.Errorf\<close> with \<open>%w\<close>.
\<close>

datatype error = context_error | failure string | wrapped string error

text \<open>
  The locator is an interface value whose answers the analyzer does not control: the
  \<open>k\<close>-th call of \<open>FindRelatedJobs\<close> (counted from 0) answers \<open>FindRelatedJobs k\<close>. The
  context is observed in the \<open>select\<close> after a failed attempt: \<open>ctxDone k\<close> says that the
  context is done before the one-minute timer that follows call \<open>k\<close> fires.

  The loop state is \<open>errorsInARow\<close>; \<open>calls\<close> counts the calls made so far and is
  returned with the result, so that the number of attempts can be stated.
\<close>

function findJobRunsLoop ::
  "(nat \<Rightarrow> error + 'runs) \<Rightarrow> (nat \<Rightarrow> bool) \<Rightarrow> nat \<Rightarrow> nat \<Rightarrow> (error + 'runs) \<times> nat" where
  "findJobRunsLoop FindRelatedJobs ctxDone errorsInARow calls =
     (case FindRelatedJobs calls of
        Inr jobRuns \<Rightarrow> (Inr jobRuns, calls + 1)
      | Inl err \<Rightarrow>
          if errorsInARow > 20 then (Inl err, calls + 1)
          else if ctxDone calls then (Inl context_error, calls + 1)
          else findJobRunsLoop FindRelatedJobs ctxDone (errorsInARow + 1) (calls + 1))"
  by pat_completeness auto
termination
  by (relation "measure (\<lambda>(FindRelatedJobs, ctxDone, errorsInARow, calls). 21 - errorsInARow)") auto

declare findJobRunsLoop.simps [simp del]

definition findJobRunsWithRetry ::
  "(nat \<Rightarrow> error + 'runs) \<Rightarrow> (nat \<Rightarrow> bool) \<Rightarrow> (error + 'runs) \<times> nat" where
  "findJobRunsWithRetry FindRelatedJobs ctxDone = findJobRunsLoop FindRelatedJobs ctxDone 0 0"

section \<open>Run identifiers: \<open>NextJobRunID\<close>\<close>

text \<open>
  \<open>strconv.ParseInt(s, 10, 64)\<close>: an optional sign, then at least one decimal digit and
  nothing else; a character that is not a digit is a syntax error, and a magnitude that
  does not fit is a range error, whichever comes first from the left.
\<close>

datatype NumError = ErrSyntax | ErrRange

definition isDigit :: "char \<Rightarrow> bool" where
  "isDigit c = (CHR ''0'' \<le> c \<and> c \<le> CHR ''9'')"

definition digitVal :: "char \<Rightarrow> int" where
  "digitVal c = of_char c - of_char CHR ''0''"

fun parseUintLoop :: "string \<Rightarrow> int \<Rightarrow> NumError + int" where
  "parseUintLoop [] n = Inr n"
| "parseUintLoop (c # s) n =
     (if \<not> isDigit c then Inl ErrSyntax
      else (let n1 = n * 10 + digitVal c
            in if n1 \<ge> 2 ^ 64 then Inl ErrRange else parseUintLoop s n1))"

definition ParseUint :: "string \<Rightarrow> NumError + int" where
  "ParseUint s = (if s = [] then Inl ErrSyntax else parseUintLoop s 0)"

definition ParseInt :: "string \<Rightarrow> NumError + int" where
  "ParseInt s =
     (case s of
        [] \<Rightarrow> Inl ErrSyntax
      | c # rest \<Rightarrow>
          (let neg = (c = CHR ''-'');
               s1 = (if c = CHR ''+'' \<or> c = CHR ''-'' then rest else s)
           in case ParseUint s1 of
                Inl err \<Rightarrow> Inl err
              | Inr un \<Rightarrow>
                  if \<not> neg \<and> un \<ge> 2 ^ 63 then Inl ErrRange
                  else if neg \<and> un > 2 ^ 63 then Inl ErrRange
                  else Inr (if neg then - un else un)))"

text \<open>Addition on \<open>int64\<close> wraps around.\<close>

definition wrapInt64 :: "int \<Rightarrow> int" where
  "wrapInt64 i = (i + 2 ^ 63) mod 2 ^ 64 - 2 ^ 63"

text \<open>\<open>NextJobRunID\<close>: \<open>Inl err\<close> is \<open>panic(err)\<close>.\<close>

definition NextJobRunID :: "string \<Rightarrow> NumError + string" where
  "NextJobRunID current =
     (if length current = 0 then Inr ''0''
      else case ParseInt current of
             Inl err \<Rightarrow> Inl err
           | Inr idAsInt \<Rightarrow> Inr (formatInt (wrapInt64 (idAsInt + 1))))"

subsection \<open>Notions used to state its properties\<close>

text \<open>The number a string of decimal digits denotes, most significant digit first.\<close>

definition decimalValue :: "string \<Rightarrow> int" where
  "decimalValue s = foldl (\<lambda>n c. n * 10 + digitVal c) 0 s"

text \<open>A string \<open>ParseInt\<close> accepts syntactically: an optional sign and then digits only,
  at least one.\<close>

definition isNumeric :: "string \<Rightarrow> bool" where
  "isNumeric s =
     (case s of
        [] \<Rightarrow> False
      | c # rest \<Rightarrow>
          if c = CHR ''+'' \<or> c = CHR ''-'' then rest \<noteq> [] \<and> list_all isDigit rest
          else list_all isDigit s)"

section \<open>String functions of the Go library used on object names\<close>

definition hasSuffix :: "string \<Rightarrow> string \<Rightarrow> bool" where
  "hasSuffix s suffix =
     (length suffix \<le> length s \<and> drop (length s - length suffix) s = suffix)"

text \<open>\<open>strings.Split(s, "/")\<close>: the pieces between the separators, empty pieces included.\<close>

fun stringsSplit :: "string \<Rightarrow> char \<Rightarrow> string list" where
  "stringsSplit [] sep = [] # []"
| "stringsSplit (c # s) sep =
     (if c = sep then [] # stringsSplit s sep
      else (case stringsSplit s sep of
              [] \<Rightarrow> [c] # []
            | piece # pieces \<Rightarrow> (c # piece) # pieces))"

text \<open>\<open>filepath.Clean\<close> on a slash-separated path: empty and \<open>.\<close> elements are dropped, a
  \<open>..\<close> removes the element before it or, at the start of a rooted path, is dropped; an
  empty result is \<open>.\<close>. The elements kept so far are held in reverse.\<close>

fun cleanElements :: "bool \<Rightarrow> string list \<Rightarrow> string list \<Rightarrow> string list" where
  "cleanElements rooted [] kept = kept"
| "cleanElements rooted (e # es) kept =
     (if e = [] \<or> e = ''.'' then cleanElements rooted es kept
      else if e = ''..'' then
        (case kept of
           [] \<Rightarrow> if rooted then cleanElements rooted es [] else cleanElements rooted es [''..'']
         | latest # below \<Rightarrow>
             if latest \<noteq> ''..'' then cleanElements rooted es below
             else cleanElements rooted es (''..'' # kept))
      else cleanElements rooted es (e # kept))"

definition filepathClean :: "string \<Rightarrow> string" where
  "filepathClean path =
     (let rooted = (case path of [] \<Rightarrow> False | c # _ \<Rightarrow> c = CHR ''/'');
          kept = rev (cleanElements rooted (stringsSplit path CHR ''/'') []);
          cleaned = (if rooted then ''/'' else []) @ stringsJoin kept ''/''
      in if cleaned = [] then ''.'' else cleaned)"

text \<open>\<open>filepath.Dir\<close>: everything up to and including the last slash, cleaned.\<close>

definition filepathDir :: "string \<Rightarrow> string" where
  "filepathDir path = filepathClean (rev (dropWhile (\<lambda>c. c \<noteq> CHR ''/'') (rev path)))"

text \<open>\<open>filepath.Base\<close>: the last element, trailing slashes removed first.\<close>

definition filepathBase :: "string \<Rightarrow> string" where
  "filepathBase path =
     (if path = [] then ''.''
      else (let stripped = rev (dropWhile (\<lambda>c. c = CHR ''/'') (rev path));
                last_element = rev (takeWhile (\<lambda>c. c \<noteq> CHR ''/'') (rev stripped))
            in if last_element = [] then ''/'' else last_element))"

section \<open>Cursor walker: \<open>ListJobRunNamesOlderThanFourHours\<close>\<close>

text \<open>
  An object of the listing, with the two attributes the query selects. Times are
  nanoseconds, as \<open>time.Duration\<close> counts them. A query is its prefix and its start and end
  offsets, an empty offset meaning none; \<open>SetAttrSelection\<close> is called with attribute names
  the library knows, and its error branch is not modelled. The bucket is a collaborator:
  \<open>Objects query\<close> is the iterator a query returns, given by the objects it will yield and
  by how it ends, \<open>None\<close> for \<open>iterator.Done\<close> and \<open>Some err\<close> for an error of \<open>Next\<close>.
\<close>

record ObjectAttrs =
  Name :: string
  Created :: int

record Query =
  Prefix :: string
  StartOffset :: string
  EndOffset :: string

type_synonym ObjectIterator = "ObjectAttrs list \<times> error option"

definition hour :: int where
  "hour = 3600 * 1000000000"

text \<open>What the body of the loop decides for one object: go on with the same iterator,
  fast-forward past the run named by the third piece of the name, fast-forward past the
  run named by the directory of the object, or queue that run and fast-forward past it.
  The cases are tested in the order of the source.\<close>

datatype action = Continue | SkipSplit | SkipBaseDir | Queue

definition classifyObject :: "int \<Rightarrow> ObjectAttrs \<Rightarrow> action" where
  "classifyObject now attrs =
     (if now - Created attrs > 1 * 17 * hour then
        (if hasSuffix (Name attrs) ''latest-build.txt'' then Continue
         else if hasSuffix (Name attrs) ''.json'' then SkipSplit
         else if hasSuffix (Name attrs) ''prowjob.json'' then SkipBaseDir
         else Continue)
      else if now - Created attrs < 4 * hour then
        (if hasSuffix (Name attrs) ''latest-build.txt'' then Continue
         else if hasSuffix (Name attrs) ''build-log.txt'' then SkipSplit
         else if hasSuffix (Name attrs) ''.json'' then SkipSplit
         else if hasSuffix (Name attrs) ''prowjob.json'' then SkipBaseDir
         else Continue)
      else if hasSuffix (Name attrs) ''prowjob.json'' then Queue
      else Continue)"

text \<open>The run identifier taken from a name: \<open>strings.Split(name, "/")[2]\<close>, which panics
  (\<open>None\<close>) when the name has fewer than three pieces, and
  \<open>filepath.Base(filepath.Dir(name))\<close>.\<close>

definition jobRunIdSplit :: "string \<Rightarrow> string option" where
  "jobRunIdSplit name =
     (case drop 2 (stringsSplit name CHR ''/'') of [] \<Rightarrow> None | piece # _ \<Rightarrow> Some piece)"

definition jobRunIdBaseDir :: "string \<Rightarrow> string" where
  "jobRunIdBaseDir name = filepathBase (filepathDir name)"

text \<open>How the goroutine ends, what it has sent on \<open>jobRunProcessingCh\<close> (which it closes
  whenever it returns) and on \<open>errorCh\<close>.\<close>

datatype walkEnd = ListingDone | ContextDone | ListingFailed | Panicked

record walkResult =
  jobRunProcessingCh :: "string list"
  errorCh :: "error list"
  ending :: walkEnd

text \<open>One pass of the loop body on the iterator: either the goroutine stops, with the
  errors and the run identifiers it has sent in this pass, or it goes on with an iterator
  (the same one advanced, or the one of a new query) after sending the given run
  identifiers. A run is queued before its successor is computed, so a panic of
  \<open>NextJobRunID\<close> comes after the send.\<close>

datatype step = Stop walkEnd "error list" "string list" | Go_on ObjectIterator "string list"

definition skipQuery :: "string \<Rightarrow> string \<Rightarrow> Query" where
  "skipQuery jobName next =
     \<lparr>Prefix = ''logs/'' @ jobName, StartOffset = ''logs/'' @ jobName @ ''/'' @ next,
      EndOffset = []\<rparr>"

definition fastForward ::
  "(Query \<Rightarrow> ObjectIterator) \<Rightarrow> string \<Rightarrow> string option \<Rightarrow> string list \<Rightarrow> step" where
  "fastForward Objects jobName jobRunId queued =
     (case jobRunId of
        None \<Rightarrow> Stop Panicked [] queued
      | Some run \<Rightarrow>
          (case NextJobRunID run of
             Inl err \<Rightarrow> Stop Panicked [] queued
           | Inr next \<Rightarrow> Go_on (Objects (skipQuery jobName next)) queued))"

definition walkStep ::
  "(Query \<Rightarrow> ObjectIterator) \<Rightarrow> bool \<Rightarrow> int \<Rightarrow> string \<Rightarrow> ObjectIterator \<Rightarrow> step" where
  "walkStep Objects ctxErr now jobName it =
     (if ctxErr then Stop ContextDone [] []
      else case it of
             ([], None) \<Rightarrow> Stop ListingDone [] []
           | ([], Some err) \<Rightarrow> Stop ListingFailed [err] []
           | (attrs # rest, end) \<Rightarrow>
               (case classifyObject now attrs of
                  Continue \<Rightarrow> Go_on (rest, end) []
                | SkipSplit \<Rightarrow>
                    fastForward Objects jobName (jobRunIdSplit (Name attrs)) []
                | SkipBaseDir \<Rightarrow>
                    fastForward Objects jobName (Some (jobRunIdBaseDir (Name attrs))) []
                | Queue \<Rightarrow>
                    fastForward Objects jobName (Some (jobRunIdBaseDir (Name attrs)))
                      [jobRunIdBaseDir (Name attrs)]))"

text \<open>The loop of the goroutine. It need not end, so a run that does not end is \<open>None\<close>.
  \<open>ctxErr n\<close> says whether \<open>ctx.Err()\<close> is non-nil at the test in pass \<open>n\<close> (the value of
  \<open>it_count\<close> there).\<close>

partial_function (option) walkLoop ::
  "(Query \<Rightarrow> ObjectIterator) \<Rightarrow> (nat \<Rightarrow> bool) \<Rightarrow> int \<Rightarrow> string \<Rightarrow> ObjectIterator \<Rightarrow> nat
     \<Rightarrow> string list \<Rightarrow> walkResult option" where
  "walkLoop Objects ctxErr now jobName it it_count sent =
     (case walkStep Objects (ctxErr (it_count + 1)) now jobName it of
        Stop end errors queued \<Rightarrow>
          Some \<lparr>jobRunProcessingCh = sent @ queued, errorCh = errors, ending = end\<rparr>
      | Go_on it' queued \<Rightarrow>
          walkLoop Objects ctxErr now jobName it' (it_count + 1) (sent @ queued))"

declare walkLoop.simps [code]

text \<open>The first query of \<open>ListJobRunNamesOlderThanFourHours\<close>: its start offset is built
  from a fixed run identifier; the line that builds it from \<open>startingID\<close> is commented out
  in the source.\<close>

definition firstQuery :: "string \<Rightarrow> string \<Rightarrow> Query" where
  "firstQuery jobName startingID =
     \<lparr>Prefix = ''logs/'' @ jobName,
      StartOffset = ''logs/'' @ jobName @ ''/'' @ ''1475614363518767104'',
      EndOffset = []\<rparr>"

definition ListJobRunNamesOlderThanFourHours ::
  "(Query \<Rightarrow> ObjectIterator) \<Rightarrow> (nat \<Rightarrow> bool) \<Rightarrow> int \<Rightarrow> string \<Rightarrow> string \<Rightarrow> walkResult option" where
  "ListJobRunNamesOlderThanFourHours Objects ctxErr now jobName startingID =
     walkLoop Objects ctxErr now jobName (Objects (firstQuery jobName startingID)) 0 []"

subsection \<open>The object listing collaborator\<close>

text \<open>
  Modelled from the spec: the object listing of the storage service, which is not part of
  the repository. A query on a bucket yields, in the byte order of their names, the
  objects whose name starts with the prefix, is not below the start offset and is below the
  end offset if there is one; then it ends normally. The bucket is given as the list of
  its objects in the order of their names.
\<close>

fun isPrefix :: "string \<Rightarrow> string \<Rightarrow> bool" where
  "isPrefix [] s = True"
| "isPrefix (p # ps) [] = False"
| "isPrefix (p # ps) (c # s) = (p = c \<and> isPrefix ps s)"

definition listObjects :: "ObjectAttrs list \<Rightarrow> Query \<Rightarrow> ObjectIterator" where
  "listObjects bucket query =
     (filter (\<lambda>attrs. isPrefix (Prefix query) (Name attrs) \<and> StartOffset query \<le> Name attrs
                       \<and> (EndOffset query = [] \<or> Name attrs < EndOffset query)) bucket,
      None)"

subsection \<open>Notions used to state the walker's properties\<close>


text \<open>The age bands: older than 17 hours, younger than 4 hours, and the candidate band
  between them.\<close>

definition tooOld :: "int \<Rightarrow> ObjectAttrs \<Rightarrow> bool" where
  "tooOld now attrs = (now - Created attrs > 17 * hour)"

definition tooYoung :: "int \<Rightarrow> ObjectAttrs \<Rightarrow> bool" where
  "tooYoung now attrs = (now - Created attrs < 4 * hour)"

text \<open>A run-metadata marker in the candidate band.\<close>

definition isCandidateMarker :: "int \<Rightarrow> ObjectAttrs \<Rightarrow> bool" where
  "isCandidateMarker now attrs =
     (hasSuffix (Name attrs) ''prowjob.json'' \<and> \<not> tooOld now attrs \<and> \<not> tooYoung now attrs)"







text \<open>What the walker does on a listing whose runs come in ascending order, as a function
  of the objects still to come: it goes on at an object it passes over, and at any other
  object it drops the rest of that run, after queueing the object if it is a marker in
  the candidate band. \<open>run\<close> gives the number of an object's run and \<open>decide\<close> the action
  at an object.\<close>

function queuedObjects ::
  "(ObjectAttrs \<Rightarrow> int) \<Rightarrow> (ObjectAttrs \<Rightarrow> action) \<Rightarrow> ObjectAttrs list \<Rightarrow> ObjectAttrs list" where
  "queuedObjects run decide [] = []"
| "queuedObjects run decide (attrs # rest) =
     (if decide attrs = Continue then queuedObjects run decide rest
      else if decide attrs = Queue
           then attrs # queuedObjects run decide (filter (\<lambda>later. run attrs < run later) rest)
           else queuedObjects run decide (filter (\<lambda>later. run attrs < run later) rest))"
  by pat_completeness auto
termination
  by (relation "measure (\<lambda>(run, decide, listed). length listed)")
     (auto simp: less_Suc_eq_le)

section \<open>Run resolver: \<open>ReadJobRunFromGCS\<close>\<close>

text \<open>
  Modelled from the spec: the job run value of package \<open>jobrunaggregatorapi\<close>
  (\<open>NewGCSJobRun\<close> and its setters and getters), which is not among the sources. A job
  run is the storage root, job name and run identifier it was created with, the path of
  its metadata descriptor (empty until set) and the paths of its test-result files.
\<close>

record GCSJobRun =
  gcs_Root :: string
  gcs_JobName :: string
  gcs_JobRunID :: string
  GCSProwJobPath :: string
  GCSJunitPaths :: "string list"

definition NewGCSJobRun :: "string \<Rightarrow> string \<Rightarrow> string \<Rightarrow> GCSJobRun" where
  "NewGCSJobRun jobGCSRootLocation jobName jobRunId =
     \<lparr>gcs_Root = jobGCSRootLocation, gcs_JobName = jobName, gcs_JobRunID = jobRunId,
      GCSProwJobPath = [], GCSJunitPaths = []\<rparr>"

definition SetGCSProwJobPath :: "GCSJobRun \<Rightarrow> string \<Rightarrow> GCSJobRun" where
  "SetGCSProwJobPath jobRun path = jobRun\<lparr>GCSProwJobPath := path\<rparr>"

definition AddGCSJunitPaths :: "GCSJobRun \<Rightarrow> string \<Rightarrow> GCSJobRun" where
  "AddGCSJunitPaths jobRun path = jobRun\<lparr>GCSJunitPaths := GCSJunitPaths jobRun @ [path]\<rparr>"

text \<open>\<open>strings.Contains\<close>.\<close>

fun stringsContains :: "string \<Rightarrow> string \<Rightarrow> bool" where
  "stringsContains [] substr = (substr = [])"
| "stringsContains (c # s) substr = (isPrefix substr (c # s) \<or> stringsContains s substr)"

text \<open>The loop over the objects of the listing; \<open>jobRun\<close> is nil (\<open>None\<close>) until the first
  descriptor or test-result file is met.\<close>

fun readObjects :: "string \<Rightarrow> string \<Rightarrow> ObjectAttrs list \<Rightarrow> GCSJobRun option \<Rightarrow> GCSJobRun option" where
  "readObjects jobGCSRootLocation jobName [] jobRun = jobRun"
| "readObjects jobGCSRootLocation jobName (attrs # rest) jobRun =
     (if hasSuffix (Name attrs) ''prowjob.json'' then
        (let jobRunId = filepathBase (filepathDir (Name attrs));
             jobRun = (case jobRun of
                         None \<Rightarrow> NewGCSJobRun jobGCSRootLocation jobName jobRunId
                       | Some existing \<Rightarrow> existing)
         in readObjects jobGCSRootLocation jobName rest
              (Some (SetGCSProwJobPath jobRun (Name attrs))))
      else if hasSuffix (Name attrs) ''.xml'' \<and> stringsContains (Name attrs) ''/junit'' then
        (let nameParts = stringsSplit (Name attrs) CHR ''/''
         in if length nameParts < 4 then readObjects jobGCSRootLocation jobName rest jobRun
            else (let jobRunId = nameParts ! 2;
                      jobRun = (case jobRun of
                                  None \<Rightarrow> NewGCSJobRun jobGCSRootLocation jobName jobRunId
                                | Some existing \<Rightarrow> existing)
                  in readObjects jobGCSRootLocation jobName rest
                       (Some (AddGCSJunitPaths jobRun (Name attrs)))))
      else readObjects jobGCSRootLocation jobName rest jobRun)"

text \<open>What a call does: it panics (in \<open>NextJobRunID\<close>), or returns the pair of a job run,
  possibly nil, and an error, possibly nil.\<close>

datatype readResult = Panics NumError | Returns "GCSJobRun option" "error option"

definition readQuery :: "string \<Rightarrow> string \<Rightarrow> string \<Rightarrow> Query" where
  "readQuery jobGCSRootLocation jobRunID next =
     \<lparr>Prefix = jobGCSRootLocation,
      StartOffset = jobGCSRootLocation @ ''/'' @ jobRunID,
      EndOffset = jobGCSRootLocation @ ''/'' @ next\<rparr>"

text \<open>The verb \<open>%q\<close> of \<open>fmt\<close> on a string, which is \<open>strconv.Quote\<close>: the string between
  double quotes, with a backslash before a double quote and a backslash, printable
  characters as they are, the usual escapes for the control characters that have one, and
  hexadecimal escapes for the other characters and for the bytes that are not the UTF-8
  encoding of a character. Bytes and characters are numbers here. Whether a character
  beyond Latin-1 is printable is looked up in tables of the library, \<open>printable\<close>.\<close>

definition lowerhex :: "nat \<Rightarrow> char" where
  "lowerhex d = ''0123456789abcdef'' ! (d mod 16)"

definition RuneError :: nat where
  "RuneError = 0xFFFD"

text \<open>For a first byte that starts an encoding of several bytes: the number of bytes and
  the range of the second byte.\<close>

definition acceptRange :: "nat \<Rightarrow> (nat \<times> nat \<times> nat) option" where
  "acceptRange s0 =
     (if 0xC2 \<le> s0 \<and> s0 \<le> 0xDF then Some (2, 0x80, 0xBF)
      else if s0 = 0xE0 then Some (3, 0xA0, 0xBF)
      else if s0 = 0xED then Some (3, 0x80, 0x9F)
      else if 0xE1 \<le> s0 \<and> s0 \<le> 0xEF then Some (3, 0x80, 0xBF)
      else if s0 = 0xF0 then Some (4, 0x90, 0xBF)
      else if 0xF1 \<le> s0 \<and> s0 \<le> 0xF3 then Some (4, 0x80, 0xBF)
      else if s0 = 0xF4 then Some (4, 0x80, 0x8F)
      else None)"

text \<open>\<open>utf8.DecodeRuneInString\<close>: the first character of the string and the number of bytes
  it takes, or \<open>RuneError\<close> and one byte when the string does not start with an encoding.\<close>

definition DecodeRuneInString :: "string \<Rightarrow> nat \<times> nat" where
  "DecodeRuneInString s =
     (if length s < 1 then (RuneError, 0)
      else (let bytes = map of_char s; s0 = bytes ! 0
            in if s0 < 0x80 then (s0, 1)
               else (case acceptRange s0 of
                       None \<Rightarrow> (RuneError, 1)
                     | Some (sz, lo, hi) \<Rightarrow>
                         if length s < sz then (RuneError, 1)
                         else if bytes ! 1 < lo \<or> hi < bytes ! 1 then (RuneError, 1)
                         else if sz \<le> 2 then ((s0 mod 32) * 64 + bytes ! 1 mod 64, 2)
                         else if bytes ! 2 < 0x80 \<or> 0xBF < bytes ! 2 then (RuneError, 1)
                         else if sz \<le> 3
                           then ((s0 mod 16) * 4096 + (bytes ! 1 mod 64) * 64
                                   + bytes ! 2 mod 64, 3)
                         else if bytes ! 3 < 0x80 \<or> 0xBF < bytes ! 3 then (RuneError, 1)
                         else ((s0 mod 8) * 262144 + (bytes ! 1 mod 64) * 4096
                                 + (bytes ! 2 mod 64) * 64 + bytes ! 3 mod 64, 4))))"

text \<open>\<open>utf8.AppendRune\<close>: the encoding of a character.\<close>

definition AppendRune :: "nat \<Rightarrow> string" where
  "AppendRune r =
     (if r \<le> 0x7F then [char_of r]
      else if r \<le> 0x7FF then [char_of (0xC0 + r div 64), char_of (0x80 + r mod 64)]
      else if r > 0x10FFFF \<or> (0xD800 \<le> r \<and> r \<le> 0xDFFF) then [CHR 0xEF, CHR 0xBF, CHR 0xBD]
      else if r \<le> 0xFFFF
        then [char_of (0xE0 + r div 4096), char_of (0x80 + (r div 64) mod 64),
              char_of (0x80 + r mod 64)]
      else [char_of (0xF0 + r div 262144), char_of (0x80 + (r div 4096) mod 64),
            char_of (0x80 + (r div 64) mod 64), char_of (0x80 + r mod 64)])"

text \<open>\<open>strconv.IsPrint\<close>: decided directly up to \<open>0xFF\<close>, by the tables beyond.\<close>

definition IsPrint :: "(nat \<Rightarrow> bool) \<Rightarrow> nat \<Rightarrow> bool" where
  "IsPrint printable r =
     (if r \<le> 0xFF
      then (0x20 \<le> r \<and> r \<le> 0x7E) \<or> (0xA1 \<le> r \<and> r \<le> 0xFF \<and> r \<noteq> 0xAD)
      else printable r)"

definition appendEscapedRune :: "(nat \<Rightarrow> bool) \<Rightarrow> nat \<Rightarrow> string" where
  "appendEscapedRune printable r =
     (if r = 0x22 \<or> r = 0x5C then [CHR 0x5C, char_of r]
      else if IsPrint printable r then AppendRune r
      else if r = 0x07 then [CHR 0x5C, CHR ''a'']
      else if r = 0x08 then [CHR 0x5C, CHR ''b'']
      else if r = 0x0C then [CHR 0x5C, CHR ''f'']
      else if r = 0x0A then [CHR 0x5C, CHR ''n'']
      else if r = 0x0D then [CHR 0x5C, CHR ''r'']
      else if r = 0x09 then [CHR 0x5C, CHR ''t'']
      else if r = 0x0B then [CHR 0x5C, CHR ''v'']
      else if r < 0x20 \<or> r = 0x7F
        then [CHR 0x5C, CHR ''x'', lowerhex (r div 16), lowerhex r]
      else if r < 0x10000
        then [CHR 0x5C, CHR ''u''] @ map (\<lambda>shift. lowerhex (r div 2 ^ shift)) [12, 8, 4, 0]
      else [CHR 0x5C, CHR ''U'']
             @ map (\<lambda>shift. lowerhex (r div 2 ^ shift)) [28, 24, 20, 16, 12, 8, 4, 0])"

text \<open>The loop of \<open>strconv.Quote\<close> over the string; a character takes at least one byte, so
  the rest of the string after it is at most \<open>s\<close>.\<close>

fun quoteLoop :: "(nat \<Rightarrow> bool) \<Rightarrow> string \<Rightarrow> string" where
  "quoteLoop printable [] = []"
| "quoteLoop printable (c # s) =
     (let (r, width) = (if of_char c \<ge> (0x80 :: nat) then DecodeRuneInString (c # s)
                        else (of_char c, 1))
      in if width = 1 \<and> r = RuneError
         then [CHR 0x5C, CHR ''x'', lowerhex (of_char c div 16), lowerhex (of_char c)]
                @ quoteLoop printable s
         else appendEscapedRune printable r @ quoteLoop printable (drop (width - 1) s))"

definition goQuote :: "(nat \<Rightarrow> bool) \<Rightarrow> string \<Rightarrow> string" where
  "goQuote printable s = [CHR 0x22] @ quoteLoop printable s @ [CHR 0x22]"

text \<open>\<open>ReadJobRunFromGCS\<close>. \<open>GetProwJob\<close> is the fetch of the descriptor's content, a
  collaborator: \<open>None\<close> when it succeeds, \<open>Some err\<close> when it fails. \<open>printable\<close> stands
  for the character tables of the library that the error message is formatted with.\<close>

definition ReadJobRunFromGCS ::
  "(Query \<Rightarrow> ObjectIterator) \<Rightarrow> (GCSJobRun \<Rightarrow> error option) \<Rightarrow> (nat \<Rightarrow> bool)
     \<Rightarrow> string \<Rightarrow> string \<Rightarrow> string \<Rightarrow> readResult" where
  "ReadJobRunFromGCS Objects GetProwJob printable jobGCSRootLocation jobName jobRunID =
     (case NextJobRunID jobRunID of
        Inl err \<Rightarrow> Panics err
      | Inr next \<Rightarrow>
          (case Objects (readQuery jobGCSRootLocation jobRunID next) of
             (objects, Some err) \<Rightarrow> Returns None (Some err)
           | (objects, None) \<Rightarrow>
               (case readObjects jobGCSRootLocation jobName objects None of
                  None \<Rightarrow> Returns None None
                | Some jobRun \<Rightarrow>
                    if length (GCSProwJobPath jobRun) = 0 then Returns None None
                    else (case GetProwJob jobRun of
                            Some err \<Rightarrow>
                              Returns None
                                (Some (wrapped (''failed to get prowjob for ''
                                                  @ goQuote printable jobName @ ''/''
                                                  @ goQuote printable jobRunID) err))
                          | None \<Rightarrow> Returns (Some jobRun) None))))"

subsection \<open>Notions used to state its properties\<close>

text \<open>The descriptor path a possibly nil job run holds.\<close>

definition descriptorPath :: "GCSJobRun option \<Rightarrow> string" where
  "descriptorPath jobRun = (case jobRun of None \<Rightarrow> [] | Some given \<Rightarrow> GCSProwJobPath given)"

section \<open>Fan-out collector: \<open>GetRelatedJobRuns\<close>\<close>

text \<open>
  A locator is an interface value; what matters of it here is what its successive calls of
  \<open>FindRelatedJobs\<close> answer. The two constructors of locators belong to the library and
  are collaborators, like the job getter. Of a job row only the name is used.
\<close>

type_synonym 'r JobRunLocator = "nat \<Rightarrow> error + 'r list"

record JobRow =
  JobName :: string

record jobGCSPrefix =
  prefix_jobName :: string
  gcsPrefix :: string

record JobRunTestCaseAnalyzerOptions =
  payloadTag :: string
  payloadInvocationID :: string
  jobGCSPrefixes :: "jobGCSPrefix list"

record 'r collaborators =
  GetJobs :: "error + JobRow list"
  NewPayloadAnalysisJobLocatorForReleaseController :: "string \<Rightarrow> string \<Rightarrow> 'r JobRunLocator"
  NewPayloadAnalysisJobLocatorForPR :: "string \<Rightarrow> string \<Rightarrow> string \<Rightarrow> 'r JobRunLocator"

text \<open>The locator built for the job at index \<open>i\<close>. It stays nil when neither a payload
  tag nor an invocation identifier is set, and the calls on it in the goroutine then
  panic; with an invocation identifier, indexing the prefixes at \<open>i\<close> panics when there
  are too few. Both are \<open>None\<close>.\<close>

definition locatorForJob ::
  "JobRunTestCaseAnalyzerOptions \<Rightarrow> 'r collaborators \<Rightarrow> nat \<Rightarrow> JobRow \<Rightarrow> 'r JobRunLocator option" where
  "locatorForJob opts env i job =
     (let jobRunLocator =
            (if length (payloadTag opts) > 0
             then Some (NewPayloadAnalysisJobLocatorForReleaseController env (JobName job)
                          (payloadTag opts))
             else None)
      in if length (payloadInvocationID opts) > 0
         then (if i < length (jobGCSPrefixes opts)
               then Some (NewPayloadAnalysisJobLocatorForPR env (JobName job)
                            (payloadInvocationID opts) (gcsPrefix (jobGCSPrefixes opts ! i)))
               else None)
         else jobRunLocator)"

fun launchAll ::
  "JobRunTestCaseAnalyzerOptions \<Rightarrow> 'r collaborators \<Rightarrow> JobRow list \<Rightarrow> nat
     \<Rightarrow> 'r JobRunLocator list option" where
  "launchAll opts env [] i = Some []"
| "launchAll opts env (job # rest) i =
     (case locatorForJob opts env i job of
        None \<Rightarrow> None
      | Some jobRunLocator \<Rightarrow>
          (case launchAll opts env rest (i + 1) of
             None \<Rightarrow> None
           | Some locators \<Rightarrow> Some (jobRunLocator # locators)))"

text \<open>What the goroutine of each job leaves: the result of \<open>findJobRunsWithRetry\<close> on its
  locator. \<open>ctxDone i\<close> is what the goroutine of job \<open>i\<close> sees of the context in its
  waits.\<close>

fun jobResults ::
  "'r JobRunLocator list \<Rightarrow> (nat \<Rightarrow> nat \<Rightarrow> bool) \<Rightarrow> nat \<Rightarrow> (error + 'r list) list" where
  "jobResults [] ctxDone i = []"
| "jobResults (jobRunLocator # rest) ctxDone i =
     fst (findJobRunsWithRetry jobRunLocator (ctxDone i)) # jobResults rest ctxDone (i + 1)"

text \<open>The content of \<open>resultCh\<close> when it is drained: a goroutine sends its runs only when
  it got no error, and the sends arrive in the order in which the goroutines finish,
  \<open>arrival\<close>, a list of job indices.\<close>

fun drainResults :: "(error + 'r list) list \<Rightarrow> nat list \<Rightarrow> 'r list list" where
  "drainResults results [] = []"
| "drainResults results (i # arrival) =
     (if i < length results
      then (case results ! i of
              Inr jobRuns \<Rightarrow> jobRuns # drainResults results arrival
            | Inl err \<Rightarrow> drainResults results arrival)
      else drainResults results arrival)"

text \<open>\<open>GetRelatedJobRuns\<close>: it crashes on a panic, or returns runs or an error.
  \<open>ctxDoneAtEnd\<close> is the state of the context at the \<open>select\<close> after the join.\<close>

datatype 'r collected = Crash | Return "error + 'r list"

definition GetRelatedJobRuns ::
  "JobRunTestCaseAnalyzerOptions \<Rightarrow> 'r collaborators \<Rightarrow> (nat \<Rightarrow> nat \<Rightarrow> bool) \<Rightarrow> bool \<Rightarrow> nat list
     \<Rightarrow> 'r collected" where
  "GetRelatedJobRuns opts env ctxDone ctxDoneAtEnd arrival =
     (case GetJobs env of
        Inl err \<Rightarrow> Return (Inl (wrapped ''failed to get related jobs'' err))
      | Inr jobs \<Rightarrow>
          (case launchAll opts env jobs 0 of
             None \<Rightarrow> Crash
           | Some locators \<Rightarrow>
               (let resultCh = drainResults (jobResults locators ctxDone 0) arrival;
                    jobRunsToReturn = concat resultCh
                in if ctxDoneAtEnd then Return (Inl context_error)
                   else Return (Inr jobRunsToReturn))))"

subsection \<open>Notions used to state its properties\<close>

text \<open>The runs of the jobs whose locator invocation succeeded, in the order of the jobs.\<close>

definition successfulRuns :: "(error + 'r list) list \<Rightarrow> 'r list" where
  "successfulRuns results =
     concat (map (\<lambda>result. case result of Inr jobRuns \<Rightarrow> jobRuns | Inl err \<Rightarrow> []) results)"

section \<open>Properties of the suite matcher\<close>

lemma scanTestCases_find:
  "scanTestCases name tcs =
     (case find (\<lambda>tc. tc_Name tc = name) tcs of
        None \<Rightarrow> testSkipped
      | Some tc \<Rightarrow> if tc_FailureOutput tc = None then testPassed else testFailed)"
  by (induction tcs) auto

lemma searchChildren_find:
  "searchChildren next cs =
     (case testSuites next of
        [] \<Rightarrow> testSkipped
      | second # remaining \<Rightarrow>
          (case find (\<lambda>s. s = testPassed \<or> s = testFailed)
                  (map (getTestStatus next) (filter (\<lambda>c. ts_Name c = second) cs)) of
             None \<Rightarrow> testSkipped
           | Some s \<Rightarrow> s))"
  by (induction cs) (auto split: list.splits option.splits simp: Let_def)

text \<open>
  Claim C1. \<open>getTestStatus\<close> is a function of the identifier and the tree alone, and:
  (1) a tree whose name differs from the first suite name of the identifier is skipped;
  (2) when the identifier has exactly one suite name, equal to the tree's name, the first
  direct test case whose name is exactly the test name decides: failed if it carries
  failure output, passed if not, and skipped when there is no such case;
  (3) when the identifier has further suite names, only the children named like the second
  suite name are searched, with the first suite name dropped from the identifier, and the
  first of their results that is passed or failed is returned, skipped if there is none;
  (4) for suites \<open>install\<close>, \<open>network\<close> and test \<open>dns-check\<close>: a tree rooted
  \<open>install\<close> with a child \<open>network\<close> holding the case \<open>dns-check\<close> gives failed when the
  case has failure output and passed when it has none, and any tree rooted \<open>other\<close> gives
  skipped.
\<close>

theorem getTestStatus_spec:
  "(testSuites tid = first # rest \<and> first \<noteq> ts_Name t \<longrightarrow> getTestStatus tid t = testSkipped)
 \<and> (testSuites tid = [ts_Name t] \<longrightarrow>
      getTestStatus tid t =
        (case find (\<lambda>tc. tc_Name tc = testName tid) (ts_TestCases t) of
           None \<Rightarrow> testSkipped
         | Some tc \<Rightarrow> if tc_FailureOutput tc = None then testPassed else testFailed))
 \<and> (testSuites tid = ts_Name t # second # remaining \<longrightarrow>
      getTestStatus tid t =
        (case find (\<lambda>s. s = testPassed \<or> s = testFailed)
                (map (getTestStatus (tid\<lparr>testSuites := second # remaining\<rparr>))
                     (filter (\<lambda>c. ts_Name c = second) (ts_Children t))) of
           None \<Rightarrow> testSkipped
         | Some s \<Rightarrow> s))
 \<and> getTestStatus \<lparr>testSuites = [''install'', ''network''], testName = ''dns-check''\<rparr>
       (TestSuite ''install'' n f []
          [TestSuite ''network'' n' f'
             [\<lparr>tc_Name = ''dns-check'', tc_SystemOut = out, tc_FailureOutput = Some fo\<rparr>] []])
     = testFailed
 \<and> getTestStatus \<lparr>testSuites = [''install'', ''network''], testName = ''dns-check''\<rparr>
       (TestSuite ''install'' n f []
          [TestSuite ''network'' n' f'
             [\<lparr>tc_Name = ''dns-check'', tc_SystemOut = out, tc_FailureOutput = None\<rparr>] []])
     = testPassed
 \<and> getTestStatus \<lparr>testSuites = [''install'', ''network''], testName = ''dns-check''\<rparr>
       (TestSuite ''other'' n f tcs cs) = testSkipped"
  by (cases t) (simp add: searchChildren_find scanTestCases_find)

theorem getTestStatus_spec_witness:
  "getTestStatus \<lparr>testSuites = [''a'', ''b''], testName = ''x''\<rparr>
     (TestSuite ''z'' 0 0 [\<lparr>tc_Name = ''x'', tc_SystemOut = [], tc_FailureOutput = None\<rparr>] [])
     = testSkipped
 \<and> getTestStatus \<lparr>testSuites = [''a''], testName = ''x''\<rparr>
     (TestSuite ''a'' 0 0
        [\<lparr>tc_Name = ''w'', tc_SystemOut = [], tc_FailureOutput = None\<rparr>,
         \<lparr>tc_Name = ''x'', tc_SystemOut = [], tc_FailureOutput = Some \<lparr>Message = ''boom''\<rparr>\<rparr>,
         \<lparr>tc_Name = ''x'', tc_SystemOut = [], tc_FailureOutput = None\<rparr>] [])
     = testFailed
 \<and> getTestStatus \<lparr>testSuites = [''a'', ''b''], testName = ''x''\<rparr>
     (TestSuite ''a'' 0 0 []
        [TestSuite ''c'' 0 0 [\<lparr>tc_Name = ''x'', tc_SystemOut = [], tc_FailureOutput = None\<rparr>] [],
         TestSuite ''b'' 0 0 [] [],
         TestSuite ''b'' 0 0 [\<lparr>tc_Name = ''x'', tc_SystemOut = [], tc_FailureOutput = None\<rparr>] [],
         TestSuite ''b'' 0 0
           [\<lparr>tc_Name = ''x'', tc_SystemOut = [], tc_FailureOutput = Some \<lparr>Message = ''boom''\<rparr>\<rparr>] []])
     = testPassed"
  using
    getTestStatus_spec [of "\<lparr>testSuites = [''a'', ''b''], testName = ''x''\<rparr>" "''a''" "[''b'']"
      "TestSuite ''z'' 0 0 [\<lparr>tc_Name = ''x'', tc_SystemOut = [], tc_FailureOutput = None\<rparr>] []"]
    getTestStatus_spec [of "\<lparr>testSuites = [''a''], testName = ''x''\<rparr>" "''a''" "[]"
      "TestSuite ''a'' 0 0
        [\<lparr>tc_Name = ''w'', tc_SystemOut = [], tc_FailureOutput = None\<rparr>,
         \<lparr>tc_Name = ''x'', tc_SystemOut = [], tc_FailureOutput = Some \<lparr>Message = ''boom''\<rparr>\<rparr>,
         \<lparr>tc_Name = ''x'', tc_SystemOut = [], tc_FailureOutput = None\<rparr>] []"]
    getTestStatus_spec [of "\<lparr>testSuites = [''a'', ''b''], testName = ''x''\<rparr>" "''a''" "[''b'']"
      "TestSuite ''a'' 0 0 []
        [TestSuite ''c'' 0 0 [\<lparr>tc_Name = ''x'', tc_SystemOut = [], tc_FailureOutput = None\<rparr>] [],
         TestSuite ''b'' 0 0 [] [],
         TestSuite ''b'' 0 0 [\<lparr>tc_Name = ''x'', tc_SystemOut = [], tc_FailureOutput = None\<rparr>] [],
         TestSuite ''b'' 0 0
           [\<lparr>tc_Name = ''x'', tc_SystemOut = [], tc_FailureOutput = Some \<lparr>Message = ''boom''\<rparr>\<rparr>] []]"
      "''b''" "[]"]
  by simp

text \<open>
  Claim C10. For an identifier with no suite names \<open>getTestStatus\<close> returns skipped on
  every tree, whatever test cases the tree holds: the test name is never compared. In
  particular a tree that holds a case of exactly the test name is still skipped.
\<close>

theorem getTestStatus_empty_suites:
  "(testSuites tid = [] \<longrightarrow> getTestStatus tid t = testSkipped)
 \<and> getTestStatus \<lparr>testSuites = [], testName = nm\<rparr>
       (TestSuite sn n f [\<lparr>tc_Name = nm, tc_SystemOut = out, tc_FailureOutput = fo\<rparr>] cs)
     = testSkipped"
  by (cases t) simp

theorem getTestStatus_empty_suites_witness:
  "getTestStatus \<lparr>testSuites = [], testName = ''x''\<rparr>
     (TestSuite ''a'' 0 0 [\<lparr>tc_Name = ''x'', tc_SystemOut = [], tc_FailureOutput = None\<rparr>] [])
   = testSkipped"
  using getTestStatus_empty_suites
    [of "\<lparr>testSuites = [], testName = ''x''\<rparr>"
        "TestSuite ''a'' 0 0 [\<lparr>tc_Name = ''x'', tc_SystemOut = [], tc_FailureOutput = None\<rparr>] []"]
  by simp

section \<open>Properties of the threshold checker\<close>


lemma checkSuites_forestVerdict:
  "checkSuites tid ss testSkipped n =
     (forestVerdict tid \<lparr>Suites = ss\<rparr>,
      if forestVerdict tid \<lparr>Suites = ss\<rparr> = testPassed then n + 1 else n)"
  by (induction ss) (auto simp: forestVerdict_def split: testStatus.splits)

lemma checkJobRuns_successCount:
  "fst (checkJobRuns r entries n d) = n + int (passedRuns (checker_id r) entries)"
proof (induction entries arbitrary: n d)
  case Nil
  show ?case by (simp add: passedRuns_def)
next
  case (Cons e entries)
  obtain jobRun suites where e: "e = (jobRun, suites)" by (cases e)
  have s: "\<lparr>Suites = Suites suites\<rparr> = suites" by simp
  show ?case
    using Cons.IH by (simp add: e checkSuites_forestVerdict s passedRuns_def)
qed

lemma countTestCases_eq:
  "countTestCases tcs a b =
     (a + word_of_nat (length tcs),
      b + word_of_nat (length (filter (\<lambda>test. tc_FailureOutput test \<noteq> None) tcs)))"
  by (induction tcs arbitrary: a b) (auto simp: algebra_simps)

lemma updateChildren_eq:
  "updateChildren cs a b =
     (map updateTestCountsInSuite cs,
      a + sum_list (map ts_NumTests (map updateTestCountsInSuite cs)),
      b + sum_list (map ts_NumFailed (map updateTestCountsInSuite cs)))"
  by (induction cs arbitrary: a b) (auto simp: Let_def algebra_simps)

lemma updateTestCountsInSuite_eq:
  "updateTestCountsInSuite (TestSuite name nt nf tcs cs) =
     TestSuite name
       (word_of_nat (length tcs) + sum_list (map ts_NumTests (map updateTestCountsInSuite cs)))
       (word_of_nat (length (filter (\<lambda>test. tc_FailureOutput test \<noteq> None) tcs))
          + sum_list (map ts_NumFailed (map updateTestCountsInSuite cs)))
       tcs (map updateTestCountsInSuite cs)"
  by (simp add: countTestCases_eq updateChildren_eq)

lemma allSuites_update_countsMatch:
  "s \<in> set (allSuites (updateTestCountsInSuite t)) \<Longrightarrow> countsMatch s"
proof (induction t arbitrary: s)
  case (TestSuite name nt nf tcs cs)
  then show ?case
    by (auto simp: updateTestCountsInSuite_eq countsMatch_def simp del: updateTestCountsInSuite.simps)
qed

lemma allTestCases_update: "allTestCases (updateTestCountsInSuite t) = allTestCases t"
proof (induction t)
  case (TestSuite name nt nf tcs cs)
  have "map (allTestCases \<circ> updateTestCountsInSuite) cs = map allTestCases cs"
    by (rule map_cong [OF refl]) (simp add: TestSuite.IH)
  then show ?case
    by (simp only: updateTestCountsInSuite_eq allTestCases.simps map_map)
qed

lemma allTestCases_chain:
  "allTestCases (atBottomSuite (length names) (appendTestCase testCase)
       (addToTestSuiteFromSuiteNames (TestSuite name nt nf [] []) names)) = [testCase]"
  by (induction names arbitrary: name nt nf) auto

lemma suite_names_update:
  "map ts_Name (allSuites (updateTestCountsInSuite t)) = map ts_Name (allSuites t)"
proof (induction t)
  case (TestSuite name nt nf tcs cs)
  show ?case
    using TestSuite.IH
    by (simp add: updateTestCountsInSuite_eq map_concat comp_def
          del: updateTestCountsInSuite.simps cong: map_cong)
qed

lemma suite_names_chain:
  "map ts_Name (allSuites (atBottomSuite (length names) (appendTestCase testCase)
       (addToTestSuiteFromSuiteNames (TestSuite name nt nf [] []) names))) = name # names"
  by (induction names arbitrary: name nt nf) auto


lemma CheckTestCase_cases:
  obtains (marshal_failed) d where "yamlMarshal d = None"
      and "CheckTestCase r sep yamlMarshal jobRunJunits = None"
  | (returned) caseName detailsYaml where
      "CheckTestCase r sep yamlMarshal jobRunJunits =
         Some (updateTestCountsInSuite
           (atBottomSuite (length (testSuites (checker_id r)))
              (appendTestCase
                 \<lparr>tc_Name = caseName, tc_SystemOut = detailsYaml,
                  tc_FailureOutput =
                    (if int (passedRuns (checker_id r) jobRunJunits) < requiredNumberOfPasses r
                     then Some \<lparr>Message = ''required minimum successful count ''
                             @ formatInt (requiredNumberOfPasses r) @ '', got ''
                             @ formatInt (int (passedRuns (checker_id r) jobRunJunits))\<rparr>
                     else None)\<rparr>)
              (addToTestSuiteFromSuiteNames
                 (TestSuite ''minimum-required-passes-checker'' 0 0 [] [])
                 (testSuites (checker_id r)))))"
proof -
  let ?d0 = "\<lparr>details_Name = testName (checker_id r),
              details_TestSuiteName = stringsJoin (testSuites (checker_id r)) sep,
              details_Summary = [], Passes = [], Failures = [], Skips = []\<rparr>"
  obtain n d where cj: "checkJobRuns r jobRunJunits 0 ?d0 = (n, d)"
    by (cases "checkJobRuns r jobRunJunits 0 ?d0")
  have n: "n = int (passedRuns (checker_id r) jobRunJunits)"
    using checkJobRuns_successCount [of r jobRunJunits 0 ?d0] cj by simp
  let ?d1 = "d\<lparr>details_Summary :=
                      ''Total job runs: '' @ formatInt (int (length jobRunJunits))
                    @ '', passes: '' @ formatInt (int (length (Passes d)))
                    @ '', failures: '' @ formatInt (int (length (Failures d)))
                    @ '', skips '' @ formatInt (int (length (Skips d)))\<rparr>"
  show thesis
  proof (cases "yamlMarshal ?d1")
    case None
    have "CheckTestCase r sep yamlMarshal jobRunJunits = None"
      unfolding CheckTestCase_def Let_def cj prod.case None option.case by (rule refl)
    with None show thesis by (rule marshal_failed)
  next
    case (Some y)
    show thesis
      by (rule returned) (unfold CheckTestCase_def Let_def cj prod.case Some option.case n, rule refl)
  qed
qed

lemma formatInt_small: "formatInt 3 = ''3''" "formatInt 2 = ''2''"
  by (simp_all add: formatInt_def formatUint.simps digitChar_def)

text \<open>
  Claim C2. Whatever the job runs and their forests, and in whatever order the map is
  visited, \<open>CheckTestCase\<close> (when the details can be marshalled, so that it returns a
  suite) returns a tree that holds exactly one test case, the synthesized one; the success
  count it used is the number of runs whose forest verdict (first top-level suite found
  passed or failed) is passed; the case carries failure output if and only if that count
  is below the required minimum, and then the message is
  \<open>required minimum successful count\<close> followed by the minimum, \<open>, got\<close> and the count.
  With minimum 3 and exactly 2 passed runs the message is
  \<open>required minimum successful count 3, got 2\<close>.
\<close>

theorem CheckTestCase_threshold:
  assumes "\<And>d. yamlMarshal d \<noteq> None"
  shows "\<exists>topSuite testCase.
           CheckTestCase r sep yamlMarshal jobRunJunits = Some topSuite
         \<and> allTestCases topSuite = [testCase]
         \<and> (tc_FailureOutput testCase \<noteq> None
              \<longleftrightarrow> int (passedRuns (checker_id r) jobRunJunits) < requiredNumberOfPasses r)
         \<and> (int (passedRuns (checker_id r) jobRunJunits) < requiredNumberOfPasses r \<longrightarrow>
              tc_FailureOutput testCase =
                Some \<lparr>Message = ''required minimum successful count ''
                        @ formatInt (requiredNumberOfPasses r) @ '', got ''
                        @ formatInt (int (passedRuns (checker_id r) jobRunJunits))\<rparr>)
         \<and> (requiredNumberOfPasses r = 3 \<and> passedRuns (checker_id r) jobRunJunits = 2 \<longrightarrow>
              tc_FailureOutput testCase =
                Some \<lparr>Message = ''required minimum successful count 3, got 2''\<rparr>)"
proof (cases rule: CheckTestCase_cases [of yamlMarshal r sep jobRunJunits])
  case (marshal_failed d)
  show ?thesis using assms [of d] marshal_failed(1) by simp
next
  case (returned caseName detailsYaml)
  show ?thesis
    unfolding returned
    by (simp add: allTestCases_update allTestCases_chain formatInt_small
          del: updateTestCountsInSuite.simps)
qed

theorem CheckTestCase_threshold_witness:
  "\<exists>topSuite testCase.
     CheckTestCase
       \<lparr>checker_id = \<lparr>testSuites = [''a''], testName = ''t''\<rparr>, testNameSuffix = ''aws'',
        requiredNumberOfPasses = 3\<rparr>
       ''|||'' (\<lambda>d. Some (details_Summary d))
       [(\<lparr>JobRunID = ''1'', HumanURL = ''h'', GCSArtifactURL = ''g''\<rparr>,
         \<lparr>Suites = [TestSuite ''x'' 0 0 [] [],
                    TestSuite ''a'' 0 0
                      [\<lparr>tc_Name = ''t'', tc_SystemOut = [], tc_FailureOutput = None\<rparr>] []]\<rparr>),
        (\<lparr>JobRunID = ''2'', HumanURL = ''h'', GCSArtifactURL = ''g''\<rparr>,
         \<lparr>Suites = [TestSuite ''a'' 0 0
                      [\<lparr>tc_Name = ''t'', tc_SystemOut = [],
                        tc_FailureOutput = Some \<lparr>Message = ''boom''\<rparr>\<rparr>] []]\<rparr>),
        (\<lparr>JobRunID = ''3'', HumanURL = ''h'', GCSArtifactURL = ''g''\<rparr>,
         \<lparr>Suites = [TestSuite ''a'' 0 0
                      [\<lparr>tc_Name = ''t'', tc_SystemOut = [], tc_FailureOutput = None\<rparr>] []]\<rparr>)]
       = Some topSuite
   \<and> allTestCases topSuite = [testCase]
   \<and> tc_FailureOutput testCase = Some \<lparr>Message = ''required minimum successful count 3, got 2''\<rparr>"
proof -
  let ?r = "\<lparr>checker_id = \<lparr>testSuites = [''a''], testName = ''t''\<rparr>, testNameSuffix = ''aws'',
          requiredNumberOfPasses = 3\<rparr>"
  let ?e = "[(\<lparr>JobRunID = ''1'', HumanURL = ''h'', GCSArtifactURL = ''g''\<rparr>,
         \<lparr>Suites = [TestSuite ''x'' 0 0 [] [],
                    TestSuite ''a'' 0 0
                      [\<lparr>tc_Name = ''t'', tc_SystemOut = [], tc_FailureOutput = None\<rparr>] []]\<rparr>),
        (\<lparr>JobRunID = ''2'', HumanURL = ''h'', GCSArtifactURL = ''g''\<rparr>,
         \<lparr>Suites = [TestSuite ''a'' 0 0
                      [\<lparr>tc_Name = ''t'', tc_SystemOut = [],
                        tc_FailureOutput = Some \<lparr>Message = ''boom''\<rparr>\<rparr>] []]\<rparr>),
        (\<lparr>JobRunID = ''3'', HumanURL = ''h'', GCSArtifactURL = ''g''\<rparr>,
         \<lparr>Suites = [TestSuite ''a'' 0 0
                      [\<lparr>tc_Name = ''t'', tc_SystemOut = [], tc_FailureOutput = None\<rparr>] []]\<rparr>)]"
  have m: "\<And>d. (\<lambda>d. Some (details_Summary d)) d \<noteq> None" by simp
  have p: "requiredNumberOfPasses ?r = 3 \<and> passedRuns (checker_id ?r) ?e = 2"
    by (simp add: passedRuns_def forestVerdict_def)
  from CheckTestCase_threshold [of "\<lambda>d. Some (details_Summary d)" ?r "''|||''" ?e, OF m]
  obtain topSuite testCase where
    "CheckTestCase ?r ''|||'' (\<lambda>d. Some (details_Summary d)) ?e = Some topSuite"
    "allTestCases topSuite = [testCase]"
    "requiredNumberOfPasses ?r = 3 \<and> passedRuns (checker_id ?r) ?e = 2 \<longrightarrow>
       tc_FailureOutput testCase = Some \<lparr>Message = ''required minimum successful count 3, got 2''\<rparr>"
    by blast
  with p show ?thesis by blast
qed

text \<open>
  Claim C9. \<open>updateTestCountsInSuite\<close> leaves every suite of a tree with a test count equal
  to the number of its own test cases plus the test counts of its children, and a failed
  count equal to the number of its own cases carrying failure output plus the failed
  counts of its children. In particular this holds for every suite of the tree that
  \<open>CheckTestCase\<close> returns, whose suites are the top suite followed by one wrapping suite
  per suite name of the identifier.
\<close>

theorem updateTestCountsInSuite_counts:
  "(\<forall>s \<in> set (allSuites (updateTestCountsInSuite t)). countsMatch s)
 \<and> (CheckTestCase r sep yamlMarshal jobRunJunits = Some topSuite \<longrightarrow>
      (\<forall>s \<in> set (allSuites topSuite). countsMatch s)
    \<and> map ts_Name (allSuites topSuite)
        = ''minimum-required-passes-checker'' # testSuites (checker_id r))"
proof (cases rule: CheckTestCase_cases [of yamlMarshal r sep jobRunJunits])
  case (marshal_failed d)
  then show ?thesis by (simp add: allSuites_update_countsMatch)
next
  case (returned caseName detailsYaml)
  show ?thesis
    unfolding returned
    by (auto simp: allSuites_update_countsMatch suite_names_update suite_names_chain
          simp del: updateTestCountsInSuite.simps)
qed

theorem updateTestCountsInSuite_counts_witness:
  "\<exists>topSuite.
     CheckTestCase
       \<lparr>checker_id = \<lparr>testSuites = [''a'', ''b''], testName = ''t''\<rparr>, testNameSuffix = [],
        requiredNumberOfPasses = 1\<rparr>
       ''|||'' (\<lambda>d. Some (details_Summary d))
       [(\<lparr>JobRunID = ''1'', HumanURL = ''h'', GCSArtifactURL = ''g''\<rparr>,
         \<lparr>Suites = [TestSuite ''a'' 0 0 [] []]\<rparr>)] = Some topSuite
   \<and> (\<forall>s \<in> set (allSuites topSuite). countsMatch s)
   \<and> map ts_Name (allSuites topSuite) = [''minimum-required-passes-checker'', ''a'', ''b'']
   \<and> map ts_NumTests (allSuites topSuite) = [1, 1, 1]
   \<and> map ts_NumFailed (allSuites topSuite) = [1, 1, 1]"
proof -
  let ?r = "\<lparr>checker_id = \<lparr>testSuites = [''a'', ''b''], testName = ''t''\<rparr>, testNameSuffix = [],
        requiredNumberOfPasses = 1\<rparr>"
  let ?e = "[(\<lparr>JobRunID = ''1'', HumanURL = ''h'', GCSArtifactURL = ''g''\<rparr>,
         \<lparr>Suites = [TestSuite ''a'' 0 0 [] []]\<rparr>)]"
  obtain topSuite where
    h: "CheckTestCase ?r ''|||'' (\<lambda>d. Some (details_Summary d)) ?e = Some topSuite"
    and c: "map ts_NumTests (allSuites topSuite) = [1, 1, 1]"
           "map ts_NumFailed (allSuites topSuite) = [1, 1, 1]"
    by (simp add: CheckTestCase_def)
  from updateTestCountsInSuite_counts
         [of "TestSuite ''a'' 0 0 [] []" ?r "''|||''" "\<lambda>d. Some (details_Summary d)" ?e topSuite] h c
  show ?thesis by simp
qed

section \<open>Properties of the retry loop\<close>

lemma findJobRunsLoop_failing_prefix:
  assumes "\<And>j. k \<le> j \<Longrightarrow> j < n \<Longrightarrow> \<exists>e. FindRelatedJobs j = Inl e"
    and "\<And>j. k \<le> j \<Longrightarrow> j < n \<Longrightarrow> \<not> ctxDone j"
    and "k \<le> n" and "n \<le> 21"
  shows "findJobRunsLoop FindRelatedJobs ctxDone k k = findJobRunsLoop FindRelatedJobs ctxDone n n"
  using assms
proof (induction "n - k" arbitrary: k)
  case 0
  then show ?case by simp
next
  case (Suc d)
  then have lt: "k < n" by simp
  obtain e where e: "FindRelatedJobs k = Inl e"
    using Suc.prems(1) [of k] lt by auto
  have nd: "\<not> ctxDone k" using Suc.prems(2) [of k] lt by simp
  have step: "findJobRunsLoop FindRelatedJobs ctxDone k k
                = findJobRunsLoop FindRelatedJobs ctxDone (Suc k) (Suc k)"
    using lt Suc.prems(4) by (subst findJobRunsLoop.simps) (simp add: e nd)
  have "findJobRunsLoop FindRelatedJobs ctxDone (Suc k) (Suc k)
          = findJobRunsLoop FindRelatedJobs ctxDone n n"
    using Suc.hyps(2) Suc.prems lt by (intro Suc.hyps(1)) auto
  with step show ?case by simp
qed

text \<open>
  The statement of claim C3 fails on the code. A locator that fails on its first 21 calls
  and answers on the 22nd is called a 22nd time, and the runs of that call are returned:
  the guard \<open>errorsInARow > 20\<close> is tested before the failure at hand is counted, so it is
  first true at the 22nd failure.
\<close>

theorem findJobRunsWithRetry_21_failures_counterexample:
  "findJobRunsWithRetry
     (\<lambda>k. if k < 21 then Inl (failure ''not found yet'') else Inr [''run-1''])
     (\<lambda>k. False)
   = (Inr [''run-1''], 22)"
proof -
  let ?f = "\<lambda>k::nat. if k < 21 then Inl (failure ''not found yet'') else Inr [''run-1'']"
  have "findJobRunsLoop ?f (\<lambda>k. False) 0 0 = findJobRunsLoop ?f (\<lambda>k. False) 21 21"
    by (rule findJobRunsLoop_failing_prefix) auto
  also have "\<dots> = (Inr [''run-1''], 22)"
    by (subst findJobRunsLoop.simps) simp
  finally show ?thesis by (simp add: findJobRunsWithRetry_def)
qed

text \<open>
  Claim C3, amended. While the context is not done: a locator that fails on 22
  consecutive calls makes \<open>findJobRunsWithRetry\<close> return the error of the 22nd call, and no
  23rd call is made; and a locator that fails on its first \<open>n\<close> calls, for any
  \<open>n \<le> 21\<close> (so in particular \<open>n = 4\<close>), and answers on the next one makes it return
  the runs of that call with no error and no further call.
\<close>

theorem findJobRunsWithRetry_bound:
  "((\<forall>k \<le> 21. FindRelatedJobs k = Inl (errs k)) \<and> (\<forall>k < 21. \<not> ctxDone k) \<longrightarrow>
      findJobRunsWithRetry FindRelatedJobs ctxDone = (Inl (errs 21), 22))
 \<and> (n \<le> 21 \<and> (\<forall>k < n. FindRelatedJobs k = Inl (errs k)) \<and> FindRelatedJobs n = Inr jobRuns
      \<and> (\<forall>k < n. \<not> ctxDone k) \<longrightarrow>
      findJobRunsWithRetry FindRelatedJobs ctxDone = (Inr jobRuns, n + 1))
 \<and> ((\<forall>k < 4. FindRelatedJobs k = Inl (errs k)) \<and> FindRelatedJobs 4 = Inr jobRuns
      \<and> (\<forall>k < 4. \<not> ctxDone k) \<longrightarrow>
      findJobRunsWithRetry FindRelatedJobs ctxDone = (Inr jobRuns, 5))"
proof -
  have gen: "findJobRunsWithRetry FindRelatedJobs ctxDone
               = findJobRunsLoop FindRelatedJobs ctxDone m m"
    if "m \<le> 21" "\<forall>k < m. FindRelatedJobs k = Inl (errs k)" "\<forall>k < m. \<not> ctxDone k" for m
    unfolding findJobRunsWithRetry_def
    using that by (intro findJobRunsLoop_failing_prefix) auto
  have a: "findJobRunsWithRetry FindRelatedJobs ctxDone = (Inl (errs 21), 22)"
    if "\<forall>k \<le> 21. FindRelatedJobs k = Inl (errs k)" "\<forall>k < 21. \<not> ctxDone k"
  proof -
    have "findJobRunsWithRetry FindRelatedJobs ctxDone
            = findJobRunsLoop FindRelatedJobs ctxDone 21 21"
      using that by (intro gen) auto
    also have "\<dots> = (Inl (errs 21), 22)"
      using that(1) by (subst findJobRunsLoop.simps) simp
    finally show ?thesis .
  qed
  have b: "findJobRunsWithRetry FindRelatedJobs ctxDone = (Inr jobRuns, m + 1)"
    if "m \<le> 21" "\<forall>k < m. FindRelatedJobs k = Inl (errs k)" "FindRelatedJobs m = Inr jobRuns"
       "\<forall>k < m. \<not> ctxDone k" for m
  proof -
    have "findJobRunsWithRetry FindRelatedJobs ctxDone
            = findJobRunsLoop FindRelatedJobs ctxDone m m"
      using that by (intro gen) auto
    also have "\<dots> = (Inr jobRuns, m + 1)"
      using that(3) by (subst findJobRunsLoop.simps) simp
    finally show ?thesis .
  qed
  show ?thesis
    using a b [of n] b [of 4] by simp
qed

theorem findJobRunsWithRetry_bound_witness:
  "findJobRunsWithRetry (\<lambda>k. Inl (failure ''down'') :: error + string list) (\<lambda>k. False)
     = (Inl (failure ''down''), 22)
 \<and> findJobRunsWithRetry
     (\<lambda>k. if k < 4 then Inl (failure ''not found yet'') else Inr [''run-1'']) (\<lambda>k. False)
     = (Inr [''run-1''], 5)"
  using
    findJobRunsWithRetry_bound
      [of "\<lambda>k. Inl (failure ''down'') :: error + string list" "\<lambda>k. failure ''down''"
          "\<lambda>k. False" 0 "[]"]
    findJobRunsWithRetry_bound
      [of "\<lambda>k. if k < 4 then Inl (failure ''not found yet'') else Inr [''run-1'']"
          "\<lambda>k. failure ''not found yet''" "\<lambda>k. False" 4 "[''run-1'']"]
  by simp

section \<open>Properties of \<open>NextJobRunID\<close>\<close>

lemma of_char_int: "(of_char c :: int) = int (of_char c)"
  by (simp add: of_nat_of_char)

lemma isDigit_iff: "isDigit c \<longleftrightarrow> 48 \<le> (of_char c :: int) \<and> (of_char c :: int) \<le> 57"
  unfolding isDigit_def less_eq_char_def of_char_int by simp

lemma digitVal_eq: "digitVal c = of_char c - 48"
  by (simp add: digitVal_def)

lemma digitVal_range: "isDigit c \<Longrightarrow> 0 \<le> digitVal c \<and> digitVal c < 10"
  by (auto simp: isDigit_iff digitVal_eq)

lemma isDigit_not_sign: "isDigit c \<Longrightarrow> c \<noteq> CHR ''+'' \<and> c \<noteq> CHR ''-''"
  by (auto simp: isDigit_iff)

lemma digitChar_props: "d < 10 \<Longrightarrow> isDigit (digitChar d) \<and> digitVal (digitChar d) = int d"
proof -
  assume "d < 10"
  then have "d \<in> {0, 1, 2, 3, 4, 5, 6, 7, 8, 9}" by auto
  then show ?thesis
    by (auto simp: digitChar_def isDigit_iff digitVal_eq)
qed

lemma digitChar_ne0: "0 < d \<Longrightarrow> d < 10 \<Longrightarrow> digitChar d \<noteq> CHR ''0''"
  using digitChar_props [of d] by (auto simp: digitVal_eq)

lemma foldl_digits_ge:
  "list_all isDigit s \<Longrightarrow> 0 \<le> n \<Longrightarrow> n \<le> foldl (\<lambda>n c. n * 10 + digitVal c) n s"
proof (induction s arbitrary: n)
  case Nil
  then show ?case by simp
next
  case (Cons c s)
  have d: "0 \<le> digitVal c" using Cons.prems(1) digitVal_range by simp
  have "n * 10 + digitVal c \<le> foldl (\<lambda>n c. n * 10 + digitVal c) (n * 10 + digitVal c) s"
    using Cons.prems d by (intro Cons.IH) auto
  with d Cons.prems(2) show ?case by simp
qed

lemma parseUintLoop_digits:
  "list_all isDigit s \<Longrightarrow> 0 \<le> n \<Longrightarrow> n < 2 ^ 64 \<Longrightarrow>
   parseUintLoop s n =
     (if foldl (\<lambda>n c. n * 10 + digitVal c) n s < 2 ^ 64
      then Inr (foldl (\<lambda>n c. n * 10 + digitVal c) n s) else Inl ErrRange)"
proof (induction s arbitrary: n)
  case Nil
  then show ?case by simp
next
  case (Cons c s)
  let ?n1 = "n * 10 + digitVal c"
  have d: "0 \<le> digitVal c" using Cons.prems(1) digitVal_range by simp
  have ge: "?n1 \<le> foldl (\<lambda>n c. n * 10 + digitVal c) ?n1 s"
    using Cons.prems d by (intro foldl_digits_ge) auto
  show ?case
  proof (cases "?n1 < 2 ^ 64")
    case True
    have "parseUintLoop s ?n1 =
            (if foldl (\<lambda>n c. n * 10 + digitVal c) ?n1 s < 2 ^ 64
             then Inr (foldl (\<lambda>n c. n * 10 + digitVal c) ?n1 s) else Inl ErrRange)"
      using Cons.prems d True by (intro Cons.IH) auto
    with True Cons.prems(1) show ?thesis by (simp add: Let_def)
  next
    case False
    with ge Cons.prems(1) show ?thesis by (simp add: Let_def)
  qed
qed

lemma parseUintLoop_non_digit:
  "\<not> list_all isDigit s \<Longrightarrow> \<exists>e. parseUintLoop s n = Inl e"
  by (induction s arbitrary: n) (auto simp: Let_def)

lemma ParseInt_digits:
  assumes "s \<noteq> []" and "list_all isDigit s"
  shows "ParseInt s = (if decimalValue s < 2 ^ 63 then Inr (decimalValue s) else Inl ErrRange)"
proof -
  obtain c rest where s: "s = c # rest" using assms(1) by (cases s) auto
  have c: "c \<noteq> CHR ''+''" "c \<noteq> CHR ''-''"
    using assms(2) isDigit_not_sign [of c] by (auto simp: s)
  have u: "ParseUint s =
     (if decimalValue s < 2 ^ 64 then Inr (decimalValue s) else Inl ErrRange)"
    using assms parseUintLoop_digits [of s 0] by (simp add: ParseUint_def decimalValue_def)
  have "ParseInt s = (case ParseUint s of Inl err \<Rightarrow> Inl err
          | Inr un \<Rightarrow> if un \<ge> 2 ^ 63 then Inl ErrRange else Inr un)"
    unfolding ParseInt_def Let_def using c by (simp add: s split: sum.splits)
  then show ?thesis by (simp add: u)
qed

lemma ParseInt_not_numeric:
  assumes "s \<noteq> []" and "\<not> isNumeric s"
  shows "\<exists>e. ParseInt s = Inl e"
proof -
  obtain c rest where s: "s = c # rest" using assms(1) by (cases s) auto
  show ?thesis
  proof (cases "c = CHR ''+'' \<or> c = CHR ''-''")
    case True
    then have r: "rest = [] \<or> \<not> list_all isDigit rest"
      using assms(2) by (auto simp: isNumeric_def s)
    have "\<exists>e. ParseUint rest = Inl e"
      using r parseUintLoop_non_digit [of rest 0] by (auto simp: ParseUint_def)
    then show ?thesis using True by (auto simp: ParseInt_def s Let_def)
  next
    case False
    then have "\<not> list_all isDigit s" using assms(2) by (auto simp: isNumeric_def s)
    then have "\<exists>e. ParseUint s = Inl e"
      using parseUintLoop_non_digit [of s 0] by (auto simp: ParseUint_def)
    then show ?thesis using False by (auto simp: ParseInt_def s Let_def)
  qed
qed

lemma decimalValue_snoc: "decimalValue (s @ [c]) = decimalValue s * 10 + digitVal c"
  by (simp add: decimalValue_def)

lemma formatUint_digits: "0 \<le> m \<Longrightarrow> list_all isDigit (formatUint m) \<and> decimalValue (formatUint m) = m"
proof (induction m rule: formatUint.induct)
  case (1 n)
  show ?case
  proof (cases "n < 10")
    case True
    have eq: "formatUint n = [digitChar (nat n)]"
      using True by (subst formatUint.simps) simp
    have "nat n < 10" "int (nat n) = n" using True "1.prems" by auto
    with digitChar_props [of "nat n"] show ?thesis
      by (simp add: eq decimalValue_def)
  next
    case False
    have eq: "formatUint n = formatUint (n div 10) @ [digitChar (nat (n mod 10))]"
      using False by (subst formatUint.simps) simp
    have ih: "list_all isDigit (formatUint (n div 10))"
        "decimalValue (formatUint (n div 10)) = n div 10"
      using "1.IH" "1.prems" False by auto
    have "nat (n mod 10) < 10" "int (nat (n mod 10)) = n mod 10" by auto
    with ih digitChar_props [of "nat (n mod 10)"] show ?thesis
      by (simp add: eq decimalValue_snoc)
  qed
qed

lemma formatUint_nonempty: "formatUint m \<noteq> []"
  by (subst formatUint.simps) simp

lemma formatUint_no_leading_zero: "0 < m \<Longrightarrow> hd (formatUint m) \<noteq> CHR ''0''"
proof (induction m rule: formatUint.induct)
  case (1 n)
  show ?case
  proof (cases "n < 10")
    case True
    have eq: "formatUint n = [digitChar (nat n)]"
      using True by (subst formatUint.simps) simp
    have "0 < nat n" "nat n < 10" using True "1.prems" by auto
    with digitChar_ne0 [of "nat n"] show ?thesis
      by (simp add: eq)
  next
    case False
    have eq: "formatUint n = formatUint (n div 10) @ [digitChar (nat (n mod 10))]"
      using False by (subst formatUint.simps) simp
    have "hd (formatUint (n div 10)) \<noteq> CHR ''0''"
      using "1.IH" False by auto
    with formatUint_nonempty [of "n div 10"] show ?thesis
      by (simp add: eq)
  qed
qed

lemma NextJobRunID_digits:
  assumes "s \<noteq> []" and "list_all isDigit s" and "decimalValue s < 2 ^ 63 - 1"
  shows "NextJobRunID s = Inr (formatUint (decimalValue s + 1))"
proof -
  have nn: "0 \<le> decimalValue s"
    using foldl_digits_ge [of s 0] assms(2) by (simp add: decimalValue_def)
  have w: "wrapInt64 (decimalValue s + 1) = decimalValue s + 1"
    using nn assms(3) by (simp add: wrapInt64_def)
  show ?thesis
    using assms nn by (simp add: NextJobRunID_def ParseInt_digits w formatInt_def)
qed

lemma NextJobRunID_max_wraps:
  "NextJobRunID ''9223372036854775807'' = Inr ''-9223372036854775808''"
  by code_simp

text \<open>
  The statement of claim C5 fails on the code: the identifier is parsed into an \<open>int64\<close>,
  so a string of decimal digits whose value is \<open>2 ^ 63\<close> or more is a range error of
  \<open>ParseInt\<close> and \<open>NextJobRunID\<close> panics on it instead of returning the next number.
\<close>

theorem NextJobRunID_range_counterexample:
  "list_all isDigit ''9223372036854775808''
 \<and> NextJobRunID ''9223372036854775808'' = Inl ErrRange
 \<and> NextJobRunID ''9223372036854775808'' \<noteq> Inr ''9223372036854775809''"
  by code_simp

text \<open>
  Claim C5, amended. For every non-empty string \<open>s\<close> of decimal digits whose value is below
  \<open>2 ^ 63 - 1\<close>, \<open>NextJobRunID s\<close> is the decimal rendering of that value plus one, where
  the rendering of a number consists of digits, denotes the number and has no leading zero;
  \<open>NextJobRunID\<close> of the empty string is \<open>0\<close>; and a non-empty string that is not numeric
  (an optional sign followed by digits only), or a string of digits whose value is
  \<open>2 ^ 63\<close> or more, makes \<open>NextJobRunID\<close> panic instead of returning a value.
\<close>

theorem NextJobRunID_spec:
  "(s \<noteq> [] \<and> list_all isDigit s \<and> decimalValue s < 2 ^ 63 - 1 \<longrightarrow>
      NextJobRunID s = Inr (formatUint (decimalValue s + 1)))
 \<and> (0 \<le> m \<longrightarrow> list_all isDigit (formatUint m) \<and> decimalValue (formatUint m) = m)
 \<and> (0 < m \<longrightarrow> hd (formatUint m) \<noteq> CHR ''0'')
 \<and> NextJobRunID [] = Inr ''0''
 \<and> (s \<noteq> [] \<and> \<not> isNumeric s \<longrightarrow> (\<exists>e. NextJobRunID s = Inl e))
 \<and> (s \<noteq> [] \<and> list_all isDigit s \<and> 2 ^ 63 \<le> decimalValue s \<longrightarrow>
      NextJobRunID s = Inl ErrRange)"
proof -
  have a: "NextJobRunID s = Inr (formatUint (decimalValue s + 1))"
    if "s \<noteq> []" "list_all isDigit s" "decimalValue s < 2 ^ 63 - 1"
    using that by (rule NextJobRunID_digits)
  have b: "\<exists>e. NextJobRunID s = Inl e" if "s \<noteq> []" "\<not> isNumeric s"
    using ParseInt_not_numeric [OF that] that(1) by (auto simp: NextJobRunID_def)
  have c: "NextJobRunID s = Inl ErrRange"
    if "s \<noteq> []" "list_all isDigit s" "2 ^ 63 \<le> decimalValue s"
    using that by (simp add: NextJobRunID_def ParseInt_digits)
  show ?thesis
    using a b c formatUint_digits [of m] formatUint_no_leading_zero [of m]
    by (simp add: NextJobRunID_def)
qed

theorem NextJobRunID_spec_witness:
  "NextJobRunID ''1475614363518767104'' = Inr ''1475614363518767105''
 \<and> NextJobRunID ''0099'' = Inr ''100''
 \<and> decimalValue ''100'' = 100
 \<and> (\<exists>e. NextJobRunID ''12a'' = Inl e)
 \<and> NextJobRunID ''18446744073709551616'' = Inl ErrRange"
proof -
  have 1: "''1475614363518767104'' \<noteq> [] \<and> list_all isDigit ''1475614363518767104''
           \<and> decimalValue ''1475614363518767104'' < 2 ^ 63 - 1"
    by code_simp
  have 2: "formatUint (decimalValue ''1475614363518767104'' + 1) = ''1475614363518767105''"
    by code_simp
  have 3: "''0099'' \<noteq> [] \<and> list_all isDigit ''0099'' \<and> decimalValue ''0099'' < 2 ^ 63 - 1"
    by code_simp
  have 4: "formatUint (decimalValue ''0099'' + 1) = ''100''" "formatUint 100 = ''100''"
    by code_simp+
  have 5: "''12a'' \<noteq> [] \<and> \<not> isNumeric ''12a''"
    by code_simp
  have 6: "''18446744073709551616'' \<noteq> [] \<and> list_all isDigit ''18446744073709551616''
           \<and> 2 ^ 63 \<le> decimalValue ''18446744073709551616''"
    by code_simp
  show ?thesis
    using NextJobRunID_spec [of "''1475614363518767104''" 100] NextJobRunID_spec [of "''0099''" 100]
      NextJobRunID_spec [of "''12a''" 100] NextJobRunID_spec [of "''18446744073709551616''" 100]
      1 2 3 4 5 6
    by simp
qed

section \<open>Properties of the run resolver\<close>

lemma readObjects_no_descriptor:
  assumes "\<forall>attrs \<in> set objects. \<not> hasSuffix (Name attrs) ''prowjob.json''"
  shows "descriptorPath (readObjects root jobName objects jobRun) = descriptorPath jobRun"
  using assms
proof (induction objects arbitrary: jobRun)
  case Nil
  then show ?case by simp
next
  case (Cons attrs rest)
  have ih: "descriptorPath (readObjects root jobName rest jr) = descriptorPath jr" for jr
    using Cons.IH Cons.prems by simp
  have no: "\<not> hasSuffix (Name attrs) ''prowjob.json''" using Cons.prems by simp
  show ?case
    by (simp add: no ih Let_def)
       (simp add: descriptorPath_def NewGCSJobRun_def AddGCSJunitPaths_def split: option.splits)
qed

lemma hasSuffix_nonempty: "hasSuffix s (c # suffix) \<Longrightarrow> s \<noteq> []"
  by (auto simp: hasSuffix_def)

lemma readObjects_keeps_descriptor:
  "jobRun = Some given \<Longrightarrow> GCSProwJobPath given \<noteq> [] \<Longrightarrow>
   \<exists>found. readObjects root jobName objects jobRun = Some found \<and> GCSProwJobPath found \<noteq> []"
proof (induction objects arbitrary: jobRun given)
  case Nil
  then show ?case by simp
next
  case (Cons attrs rest)
  show ?case
  proof (cases "hasSuffix (Name attrs) ''prowjob.json''")
    case True
    then have ne: "Name attrs \<noteq> []" by (rule hasSuffix_nonempty)
    show ?thesis
      using True ne Cons.prems
      by (simp add: Let_def)
         (rule Cons.IH [OF refl], simp add: SetGCSProwJobPath_def)
  next
    case False
    show ?thesis
      using False Cons.prems
      by (auto simp: Let_def AddGCSJunitPaths_def intro!: Cons.IH)
  qed
qed

lemma readObjects_descriptor:
  assumes "\<exists>attrs \<in> set objects. hasSuffix (Name attrs) ''prowjob.json''"
  shows "\<exists>found. readObjects root jobName objects jobRun = Some found \<and> GCSProwJobPath found \<noteq> []"
  using assms
proof (induction objects arbitrary: jobRun)
  case Nil
  then show ?case by simp
next
  case (Cons attrs rest)
  show ?case
  proof (cases "hasSuffix (Name attrs) ''prowjob.json''")
    case True
    then have ne: "Name attrs \<noteq> []" by (rule hasSuffix_nonempty)
    show ?thesis
      using True ne
      by (simp add: Let_def)
         (rule readObjects_keeps_descriptor [OF refl], simp add: SetGCSProwJobPath_def)
  next
    case False
    with Cons.prems have "\<exists>attrs \<in> set rest. hasSuffix (Name attrs) ''prowjob.json''" by auto
    then show ?thesis
      using False by (auto simp: Let_def intro!: Cons.IH)
  qed
qed

text \<open>
  Claim C6. Whatever the storage root, job name and run identifier, when the bounded
  listing is made and ends normally: if it holds no object named like a metadata
  descriptor (\<open>prowjob.json\<close>), whether or not it holds test-result files,
  \<open>ReadJobRunFromGCS\<close> returns the pair of nil and nil; and if it holds one, a job run with
  a descriptor path is built and the descriptor is fetched: when the fetch fails the
  function returns a nil job run with a non-nil error wrapping that failure, and when it
  succeeds it returns the job run and no error.
\<close>

theorem ReadJobRunFromGCS_spec:
  assumes "NextJobRunID jobRunID = Inr next"
    and "Objects (readQuery root jobRunID next) = (objects, None)"
  shows "((\<forall>attrs \<in> set objects. \<not> hasSuffix (Name attrs) ''prowjob.json'') \<longrightarrow>
            ReadJobRunFromGCS Objects GetProwJob printable root jobName jobRunID = Returns None None)
       \<and> ((\<exists>attrs \<in> set objects. hasSuffix (Name attrs) ''prowjob.json'') \<longrightarrow>
            (\<exists>jobRun. readObjects root jobName objects None = Some jobRun
               \<and> GCSProwJobPath jobRun \<noteq> []
               \<and> (\<forall>err. GetProwJob jobRun = Some err \<longrightarrow>
                     (\<exists>failed. ReadJobRunFromGCS Objects GetProwJob printable root jobName jobRunID
                                 = Returns None (Some (wrapped failed err))))
               \<and> (GetProwJob jobRun = None \<longrightarrow>
                     ReadJobRunFromGCS Objects GetProwJob printable root jobName jobRunID
                       = Returns (Some jobRun) None)))"
proof (intro conjI impI)
  assume "\<forall>attrs \<in> set objects. \<not> hasSuffix (Name attrs) ''prowjob.json''"
  then have "descriptorPath (readObjects root jobName objects None) = descriptorPath None"
    by (rule readObjects_no_descriptor)
  then have "readObjects root jobName objects None = None
      \<or> (\<exists>jobRun. readObjects root jobName objects None = Some jobRun
                 \<and> GCSProwJobPath jobRun = [])"
    by (cases "readObjects root jobName objects None") (simp_all add: descriptorPath_def)
  then show "ReadJobRunFromGCS Objects GetProwJob printable root jobName jobRunID = Returns None None"
    by (auto simp: ReadJobRunFromGCS_def assms)
next
  assume "\<exists>attrs \<in> set objects. hasSuffix (Name attrs) ''prowjob.json''"
  then obtain jobRun where jr: "readObjects root jobName objects None = Some jobRun"
      "GCSProwJobPath jobRun \<noteq> []"
    using readObjects_descriptor by blast
  show "\<exists>jobRun. readObjects root jobName objects None = Some jobRun
               \<and> GCSProwJobPath jobRun \<noteq> []
               \<and> (\<forall>err. GetProwJob jobRun = Some err \<longrightarrow>
                     (\<exists>failed. ReadJobRunFromGCS Objects GetProwJob printable root jobName jobRunID
                                 = Returns None (Some (wrapped failed err))))
               \<and> (GetProwJob jobRun = None \<longrightarrow>
                     ReadJobRunFromGCS Objects GetProwJob printable root jobName jobRunID
                       = Returns (Some jobRun) None)"
    by (rule exI [of _ jobRun]) (simp add: jr ReadJobRunFromGCS_def assms)
qed

theorem ReadJobRunFromGCS_spec_witness:
  "ReadJobRunFromGCS
     (listObjects [\<lparr>Name = ''logs/j/5/artifacts/junit/junit_e2e.xml'', Created = 0\<rparr>,
                   \<lparr>Name = ''logs/j/5/build-log.txt'', Created = 0\<rparr>,
                   \<lparr>Name = ''logs/j/6/prowjob.json'', Created = 0\<rparr>])
     (\<lambda>jobRun. Some (failure ''not readable'')) (\<lambda>r. True) ''logs/j'' ''j'' ''5''
     = Returns None None
 \<and> (\<exists>failed.
      ReadJobRunFromGCS
        (listObjects [\<lparr>Name = ''logs/j/5/artifacts/junit/junit_e2e.xml'', Created = 0\<rparr>,
                      \<lparr>Name = ''logs/j/5/prowjob.json'', Created = 0\<rparr>])
        (\<lambda>jobRun. Some (failure ''not readable'')) (\<lambda>r. True) ''logs/j'' ''j'' ''5''
        = Returns None (Some (wrapped failed (failure ''not readable''))))"
proof -
  let ?b1 = "[\<lparr>Name = ''logs/j/5/artifacts/junit/junit_e2e.xml'', Created = 0\<rparr>,
              \<lparr>Name = ''logs/j/5/build-log.txt'', Created = 0\<rparr>,
              \<lparr>Name = ''logs/j/6/prowjob.json'', Created = 0\<rparr>]"
  let ?b2 = "[\<lparr>Name = ''logs/j/5/artifacts/junit/junit_e2e.xml'', Created = 0\<rparr>,
              \<lparr>Name = ''logs/j/5/prowjob.json'', Created = 0\<rparr>]"
  have n: "NextJobRunID ''5'' = Inr ''6''" by code_simp
  have l1: "listObjects ?b1 (readQuery ''logs/j'' ''5'' ''6'')
              = ([\<lparr>Name = ''logs/j/5/artifacts/junit/junit_e2e.xml'', Created = 0\<rparr>,
                  \<lparr>Name = ''logs/j/5/build-log.txt'', Created = 0\<rparr>], None)"
    by code_simp
  have l2: "listObjects ?b2 (readQuery ''logs/j'' ''5'' ''6'') = (?b2, None)"
    by code_simp
  have h1: "\<forall>attrs \<in> set [\<lparr>Name = ''logs/j/5/artifacts/junit/junit_e2e.xml'', Created = 0\<rparr>,
                  \<lparr>Name = ''logs/j/5/build-log.txt'', Created = 0\<rparr>].
              \<not> hasSuffix (Name attrs) ''prowjob.json''"
    by (simp add: hasSuffix_def)
  have h2: "\<exists>attrs \<in> set ?b2. hasSuffix (Name attrs) ''prowjob.json''"
    by (simp add: hasSuffix_def)
  from ReadJobRunFromGCS_spec [where Objects = "listObjects ?b1"
         and GetProwJob = "\<lambda>jobRun. Some (failure ''not readable'')" and jobName = "''j''"
         and printable = "\<lambda>r. True", OF n l1] h1
  have 1: "ReadJobRunFromGCS (listObjects ?b1) (\<lambda>jobRun. Some (failure ''not readable''))
             (\<lambda>r. True) ''logs/j'' ''j'' ''5'' = Returns None None"
    by blast
  from ReadJobRunFromGCS_spec [where Objects = "listObjects ?b2"
         and GetProwJob = "\<lambda>jobRun. Some (failure ''not readable'')" and jobName = "''j''"
         and printable = "\<lambda>r. True", OF n l2] h2
  have 2: "\<exists>failed. ReadJobRunFromGCS (listObjects ?b2) (\<lambda>jobRun. Some (failure ''not readable''))
             (\<lambda>r. True) ''logs/j'' ''j'' ''5'' = Returns None (Some (wrapped failed (failure ''not readable'')))"
    by blast
  from 1 2 show ?thesis by blast
qed

section \<open>The first query of the cursor walker\<close>

text \<open>
  Claim C8 says that the first listing starts at the key built from the caller's starting
  identifier. The code does not do that: the start offset of the first query is built
  from a fixed run identifier, so it is the same for every starting identifier, and so is
  everything the walker does. For job \<open>j\<close> and starting identifier \<open>5\<close> the listing
  starts at \<open>logs/j/1475614363518767104\<close>, not at \<open>logs/j/5\<close>.
\<close>

theorem firstQuery_ignores_startingID:
  "StartOffset (firstQuery ''j'' ''5'') = ''logs/j/1475614363518767104''
 \<and> StartOffset (firstQuery ''j'' ''5'') \<noteq> ''logs/j/5''
 \<and> firstQuery jobName startingID = firstQuery jobName otherID
 \<and> ListJobRunNamesOlderThanFourHours Objects ctxErr now jobName startingID
     = ListJobRunNamesOlderThanFourHours Objects ctxErr now jobName otherID"
  by (simp add: firstQuery_def ListJobRunNamesOlderThanFourHours_def)

section \<open>Properties of the fan-out collector\<close>

lemma length_launchAll:
  "launchAll opts env jobs i = Some locators \<Longrightarrow> length locators = length jobs"
  by (induction jobs arbitrary: i locators) (auto split: option.splits)

lemma length_jobResults: "length (jobResults locators ctxDone i) = length locators"
  by (induction locators arbitrary: i) auto

lemma successfulRuns_simps [simp]:
  "successfulRuns [] = []"
  "successfulRuns (Inr jobRuns # results) = jobRuns @ successfulRuns results"
  "successfulRuns (Inl err # results) = successfulRuns results"
  "successfulRuns (xs @ ys) = successfulRuns xs @ successfulRuns ys"
  by (simp_all add: successfulRuns_def)

lemma mset_drainResults:
  "\<forall>i \<in> set arrival. i < length results \<Longrightarrow>
   mset (concat (drainResults results arrival))
     = (\<Sum>i \<in># mset arrival. mset (successfulRuns [results ! i]))"
proof (induction arrival)
  case Nil
  show ?case by simp
next
  case (Cons i arrival)
  then have ih: "mset (concat (drainResults results arrival))
     = (\<Sum>i \<in># mset arrival. mset (successfulRuns [results ! i]))" by simp
  have i: "i < length results" using Cons.prems by simp
  show ?case
    by (cases "results ! i") (simp_all add: i ih)
qed


lemma mset_successfulRuns:
  "mset (successfulRuns results) = (\<Sum>i \<in># mset [0..<length results]. mset (successfulRuns [results ! i]))"
proof (induction results rule: rev_induct)
  case Nil
  show ?case by simp
next
  case (snoc r results)
  have "image_mset (\<lambda>i. mset (successfulRuns [(results @ [r]) ! i])) (mset [0..<length results])
          = image_mset (\<lambda>i. mset (successfulRuns [results ! i])) (mset [0..<length results])"
    by (rule image_mset_cong) (simp add: nth_append)
  then have "(\<Sum>i \<in># mset [0..<length results]. mset (successfulRuns [(results @ [r]) ! i]))
          = mset (successfulRuns results)"
    using snoc by simp
  then show ?case
    by (simp del: successfulRuns_simps(4) add: successfulRuns_simps(4) [of results "[r]"])
qed

lemma drain_permutation:
  assumes "mset arrival = mset [0..<length results]"
  shows "mset (concat (drainResults results arrival)) = mset (successfulRuns results)"
proof -
  have "set arrival = set [0..<length results]" using assms by (rule mset_eq_setD)
  then have "\<forall>i \<in> set arrival. i < length results" by simp
  then have "mset (concat (drainResults results arrival))
     = (\<Sum>i \<in># mset arrival. mset (successfulRuns [results ! i]))"
    by (rule mset_drainResults)
  also have "\<dots> = (\<Sum>i \<in># mset [0..<length results]. mset (successfulRuns [results ! i]))"
    by (simp only: assms)
  also have "\<dots> = mset (successfulRuns results)"
    by (rule mset_successfulRuns [symmetric])
  finally show ?thesis .
qed

text \<open>
  The statement of claim C4 fails on the code. Cancellation of the context is not the only
  condition under which \<open>GetRelatedJobRuns\<close> returns an error: when the job getter fails,
  its error is returned, wrapped, before any locator is invoked, although the context is
  not done.
\<close>

theorem GetRelatedJobRuns_getter_failure_counterexample:
  "GetRelatedJobRuns
     \<lparr>payloadTag = ''4.11.0-nightly'', payloadInvocationID = [], jobGCSPrefixes = []\<rparr>
     \<lparr>GetJobs = Inl (failure ''query failed''),
      NewPayloadAnalysisJobLocatorForReleaseController =
        (\<lambda>jobName tag k. Inr [jobName @ ''-run-1'']),
      NewPayloadAnalysisJobLocatorForPR = (\<lambda>jobName invocation prefix k. Inr [])\<rparr>
     (\<lambda>i k. False) False []
   = Return (Inl (wrapped ''failed to get related jobs'' (failure ''query failed'')))"
  by (simp add: GetRelatedJobRuns_def)

text \<open>
  Claim C4, amended. When the job getter fails, \<open>GetRelatedJobRuns\<close> returns the getter's
  error wrapped as \<open>failed to get related jobs\<close>, whatever the state of the context. For
  every list of candidate jobs that the job getter returns and for which the locators are
  built, and for every order in which the per-job goroutines finish: when the context is
  not done at the check after the join, \<open>GetRelatedJobRuns\<close> returns no error and exactly
  the runs of the jobs whose locator invocation succeeded, as a collection (a job whose
  invocation ends in an error adds nothing, and its error is not returned); when the
  context is done at that check it returns the context's error; so for such jobs it
  returns an error if and only if the context is done there. Altogether the errors it
  returns are the wrapped error of a failing job getter and the context's error at the
  check after the join, and no other.
\<close>

theorem GetRelatedJobRuns_partial_failure:
  "(GetJobs env = Inl err \<longrightarrow>
      GetRelatedJobRuns opts env ctxDone ctxDoneAtEnd arrival
        = Return (Inl (wrapped ''failed to get related jobs'' err)))
 \<and> (GetJobs env = Inr jobs \<and> launchAll opts env jobs 0 = Some locators
      \<and> mset arrival = mset [0..<length jobs] \<longrightarrow>
      (\<exists>runs. GetRelatedJobRuns opts env ctxDone False arrival = Return (Inr runs)
            \<and> mset runs = mset (successfulRuns (jobResults locators ctxDone 0)))
      \<and> GetRelatedJobRuns opts env ctxDone True arrival = Return (Inl context_error)
      \<and> ((\<exists>returned. GetRelatedJobRuns opts env ctxDone ctxDoneAtEnd arrival
                        = Return (Inl returned))
            \<longleftrightarrow> ctxDoneAtEnd))
 \<and> (GetRelatedJobRuns opts env ctxDone ctxDoneAtEnd arrival = Return (Inl e) \<longleftrightarrow>
      (\<exists>failed. GetJobs env = Inl failed \<and> e = wrapped ''failed to get related jobs'' failed)
      \<or> (\<exists>found built. GetJobs env = Inr found \<and> launchAll opts env found 0 = Some built
            \<and> ctxDoneAtEnd \<and> e = context_error))"
proof (intro conjI impI)
  assume "GetJobs env = Inl err"
  then show "GetRelatedJobRuns opts env ctxDone ctxDoneAtEnd arrival
               = Return (Inl (wrapped ''failed to get related jobs'' err))"
    by (simp add: GetRelatedJobRuns_def)
next
  assume h: "GetJobs env = Inr jobs \<and> launchAll opts env jobs 0 = Some locators
               \<and> mset arrival = mset [0..<length jobs]"
  then have g: "GetJobs env = Inr jobs" and l: "launchAll opts env jobs 0 = Some locators"
    and a: "mset arrival = mset [0..<length jobs]"
    by blast+
  have len: "length (jobResults locators ctxDone 0) = length jobs"
    using l by (simp add: length_jobResults length_launchAll)
  have perm: "mset (concat (drainResults (jobResults locators ctxDone 0) arrival))
                = mset (successfulRuns (jobResults locators ctxDone 0))"
    by (rule drain_permutation) (simp add: len a)
  show "\<exists>runs. GetRelatedJobRuns opts env ctxDone False arrival = Return (Inr runs)
            \<and> mset runs = mset (successfulRuns (jobResults locators ctxDone 0))"
    using perm by (simp add: GetRelatedJobRuns_def g l)
  show "GetRelatedJobRuns opts env ctxDone True arrival = Return (Inl context_error)"
    by (simp add: GetRelatedJobRuns_def g l)
  show "(\<exists>returned. GetRelatedJobRuns opts env ctxDone ctxDoneAtEnd arrival
                        = Return (Inl returned))
            \<longleftrightarrow> ctxDoneAtEnd"
    by (simp add: GetRelatedJobRuns_def g l)
next
  show "GetRelatedJobRuns opts env ctxDone ctxDoneAtEnd arrival = Return (Inl e) \<longleftrightarrow>
      (\<exists>failed. GetJobs env = Inl failed \<and> e = wrapped ''failed to get related jobs'' failed)
      \<or> (\<exists>found built. GetJobs env = Inr found \<and> launchAll opts env found 0 = Some built
            \<and> ctxDoneAtEnd \<and> e = context_error)"
    by (cases "GetJobs env"; cases "launchAll opts env (projr (GetJobs env)) 0")
       (auto simp: GetRelatedJobRuns_def)
qed

theorem GetRelatedJobRuns_partial_failure_witness:
  "(\<exists>runs.
     GetRelatedJobRuns
       \<lparr>payloadTag = ''4.11.0-nightly'', payloadInvocationID = [], jobGCSPrefixes = []\<rparr>
       \<lparr>GetJobs = Inr [\<lparr>JobName = ''A''\<rparr>, \<lparr>JobName = ''B''\<rparr>, \<lparr>JobName = ''C''\<rparr>],
        NewPayloadAnalysisJobLocatorForReleaseController =
          (\<lambda>jobName tag k. if jobName = ''B'' then Inl (failure ''no runs'')
                             else Inr [jobName @ ''-run-1'', jobName @ ''-run-2'']),
        NewPayloadAnalysisJobLocatorForPR = (\<lambda>jobName invocation prefix k. Inr [])\<rparr>
       (\<lambda>i k. False) False [2, 0, 1]
     = Return (Inr runs)
   \<and> mset runs = {#''A-run-1'', ''A-run-2'', ''C-run-1'', ''C-run-2''#})
 \<and> GetRelatedJobRuns
      \<lparr>payloadTag = [], payloadInvocationID = ''abc123'',
       jobGCSPrefixes = [\<lparr>prefix_jobName = ''A'', gcsPrefix = ''logs/A''\<rparr>]\<rparr>
      \<lparr>GetJobs = Inl context_error,
       NewPayloadAnalysisJobLocatorForReleaseController = (\<lambda>jobName tag k. Inr [''run'']),
       NewPayloadAnalysisJobLocatorForPR = (\<lambda>jobName invocation prefix k. Inr [])\<rparr>
      (\<lambda>i k. False) False [0]
    = Return (Inl (wrapped ''failed to get related jobs'' context_error))"
proof -
  let ?opts = "\<lparr>payloadTag = ''4.11.0-nightly'', payloadInvocationID = [], jobGCSPrefixes = []\<rparr>"
  let ?new = "\<lambda>(jobName :: string) (tag :: string) (k :: nat).
                if jobName = ''B'' then Inl (failure ''no runs'')
                else Inr [jobName @ ''-run-1'', jobName @ ''-run-2'']"
  let ?jobs = "[\<lparr>JobName = ''A''\<rparr>, \<lparr>JobName = ''B''\<rparr>, \<lparr>JobName = ''C''\<rparr>]"
  let ?env = "\<lparr>GetJobs = Inr ?jobs,
        NewPayloadAnalysisJobLocatorForReleaseController = ?new,
        NewPayloadAnalysisJobLocatorForPR = (\<lambda>jobName invocation prefix k. Inr [])\<rparr>"
  let ?locators = "[?new ''A'' ''4.11.0-nightly'', ?new ''B'' ''4.11.0-nightly'',
                    ?new ''C'' ''4.11.0-nightly'']"
  let ?opts2 = "\<lparr>payloadTag = [], payloadInvocationID = ''abc123'',
                  jobGCSPrefixes = [\<lparr>prefix_jobName = ''A'', gcsPrefix = ''logs/A''\<rparr>]\<rparr>"
  let ?env2 = "\<lparr>GetJobs = Inl context_error,
       NewPayloadAnalysisJobLocatorForReleaseController =
         (\<lambda>(jobName :: string) (tag :: string) (k :: nat). Inr [''run'']),
       NewPayloadAnalysisJobLocatorForPR =
         (\<lambda>(jobName :: string) (invocation :: string) (prefix :: string) (k :: nat). Inr [])\<rparr>"
  have g: "GetJobs ?env = Inr ?jobs" by simp
  have l: "launchAll ?opts ?env ?jobs 0 = Some ?locators"
    by (simp add: locatorForJob_def)
  have a: "mset [2, 0, 1] = mset [0..<length ?jobs]"
    by (simp add: upt_rec)
  have b: "findJobRunsWithRetry (\<lambda>k::nat. Inl (failure ''no runs'') :: error + string list)
             (\<lambda>k. False) = (Inl (failure ''no runs''), 22)"
    by code_simp
  have ac: "findJobRunsWithRetry (\<lambda>k::nat. Inr [''A-run-1'', ''A-run-2''] :: error + string list)
             (\<lambda>k. False) = (Inr [''A-run-1'', ''A-run-2''], 1)"
      "findJobRunsWithRetry (\<lambda>k::nat. Inr [''C-run-1'', ''C-run-2''] :: error + string list)
             (\<lambda>k. False) = (Inr [''C-run-1'', ''C-run-2''], 1)"
    by code_simp+
  have r: "successfulRuns (jobResults ?locators (\<lambda>i k. False) 0)
             = [''A-run-1'', ''A-run-2'', ''C-run-1'', ''C-run-2'']"
    by (simp add: b ac)
  have g2: "GetJobs ?env2 = Inl context_error" by simp
  from GetRelatedJobRuns_partial_failure [where env = ?env and opts = ?opts and jobs = ?jobs
         and locators = ?locators and arrival = "[2, 0, 1]" and ctxDone = "\<lambda>i k. False"]
       g l a
  have 1: "\<exists>runs. GetRelatedJobRuns ?opts ?env (\<lambda>i k. False) False [2, 0, 1] = Return (Inr runs)
             \<and> mset runs = mset (successfulRuns (jobResults ?locators (\<lambda>i k. False) 0))"
    by blast
  from GetRelatedJobRuns_partial_failure [where env = ?env2 and opts = ?opts2
         and err = context_error and ctxDone = "\<lambda>i k. False" and ctxDoneAtEnd = False
         and arrival = "[0]"] g2
  have 2: "GetRelatedJobRuns ?opts2 ?env2 (\<lambda>i k. False) False [0]
             = Return (Inl (wrapped ''failed to get related jobs'' context_error))"
    by blast
  from 1 show ?thesis
    unfolding r using 2 by (auto simp: add.commute)
qed

section \<open>Properties of the cursor walker\<close>

subsection \<open>Order of names and of run identifiers\<close>













subsection \<open>Pieces of object names\<close>


lemma stringsSplit_nonempty: "stringsSplit s sep \<noteq> []"
  by (induction s) (auto split: list.splits)


lemma stringsSplit_last_piece: "sep \<notin> set a \<Longrightarrow> stringsSplit a sep = [a]"
  by (induction a) (auto split: list.splits)

lemma stringsSplit_pieces: "piece \<in> set (stringsSplit s sep) \<Longrightarrow> sep \<notin> set piece"
proof (induction s arbitrary: piece)
  case Nil
  then show ?case by simp
next
  case (Cons c s)
  obtain p ps where ps: "stringsSplit s sep = p # ps"
    using stringsSplit_nonempty [of s sep] by (cases "stringsSplit s sep") auto
  have ih: "sep \<notin> set p" "\<And>q. q \<in> set ps \<Longrightarrow> sep \<notin> set q"
    using Cons.IH ps by auto
  show ?case
    using Cons.prems ih by (auto simp: ps split: if_splits)
qed










subsection \<open>Listings in ascending order of runs\<close>






lemma queuedObjects_Queue: "attrs \<in> set (queuedObjects run decide xs) \<Longrightarrow> decide attrs = Queue"
  by (induction run decide xs rule: queuedObjects.induct) (auto split: if_splits)







subsection \<open>Classification of objects and shape of names\<close>




lemma hour_pos: "0 < hour"
  by (simp add: hour_def)


lemma classifyObject_Queue: "classifyObject now attrs = Queue \<longleftrightarrow> isCandidateMarker now attrs"
  using hour_pos by (auto simp: classifyObject_def isCandidateMarker_def tooOld_def tooYoung_def)


lemma classifyObject_SkipSplit:
  "classifyObject now attrs = SkipSplit \<Longrightarrow> \<not> isCandidateMarker now attrs"
  using classifyObject_Queue [of now attrs] by simp

lemma isPrefix_append: "isPrefix p (p @ s)"
  by (induction p) auto

lemma stringsJoin_Cons2:
  "stringsJoin (a # b # rest) sep = a @ sep @ stringsJoin (b # rest) sep"
  by simp




subsection \<open>Queries on an ordered listing\<close>














subsection \<open>The loop on an ordered listing\<close>






subsection \<open>What the walker queues\<close>











end
